theory Spec2Isabelle
  imports Main
begin

section \<open>Strings, numbers and JSON text\<close>

text \<open>
  Strings are byte strings: the UTF-8 text the program prints or writes. A character
  outside ASCII is therefore several \<^typ>\<open>char\<close>s. Ports are natural numbers; a template
  literal and \<open>JSON.stringify\<close> both render such a number in decimal.
\<close>

definition digit_char :: "nat \<Rightarrow> char" where
  "digit_char d = ''0123456789'' ! d"

fun show_nat :: "nat \<Rightarrow> string" where
  "show_nat n = (if n < 10 then [digit_char n] else show_nat (n div 10) @ [digit_char (n mod 10)])"

declare show_nat.simps [simp del]

definition hex_digit :: "nat \<Rightarrow> char" where
  "hex_digit d = ''0123456789abcdef'' ! d"

text \<open>
  \<open>QuoteJSONString\<close> of ECMAScript, on bytes: the quote, the backslash and the control
  characters below 0x20 are escaped, everything else is copied.
\<close>

definition json_escape_char :: "char \<Rightarrow> string" where
  "json_escape_char c =
     (if c = CHR 0x08 then [CHR 0x5C, CHR ''b'']
      else if c = CHR 0x09 then [CHR 0x5C, CHR ''t'']
      else if c = CHR 0x0A then [CHR 0x5C, CHR ''n'']
      else if c = CHR 0x0C then [CHR 0x5C, CHR ''f'']
      else if c = CHR 0x0D then [CHR 0x5C, CHR ''r'']
      else if c = CHR 0x22 then [CHR 0x5C, CHR 0x22]
      else if c = CHR 0x5C then [CHR 0x5C, CHR 0x5C]
      else if (of_char c :: nat) < 32
        then [CHR 0x5C] @ ''u00'' @ [hex_digit (of_char c div 16), hex_digit (of_char c mod 16)]
      else [c])"

definition QuoteJSONString :: "string \<Rightarrow> string" where
  "QuoteJSONString s = [CHR 0x22] @ concat (map json_escape_char s) @ [CHR 0x22]"

datatype json =
    JString string
  | JNumber nat
  | JBool bool
  | JArray "json list"
  | JObject "(string \<times> json) list"

fun intercalate :: "string \<Rightarrow> string list \<Rightarrow> string" where
  "intercalate sep [] = []"
| "intercalate sep [x] = x"
| "intercalate sep (x # y # ys) = x @ sep @ intercalate sep (y # ys)"

text \<open>
  \<open>JSON.stringify(value, null, 2)\<close>: the first argument of \<open>SerializeJSON\<close> is the
  current indentation, the gap is two spaces. An empty array is \<open>[]\<close>, an empty object
  \<open>{}\<close>; otherwise every element goes on a line of its own.
\<close>

fun SerializeJSON :: "string \<Rightarrow> json \<Rightarrow> string" where
  "SerializeJSON ind (JString s) = QuoteJSONString s"
| "SerializeJSON ind (JNumber n) = show_nat n"
| "SerializeJSON ind (JBool b) = (if b then ''true'' else ''false'')"
| "SerializeJSON ind (JArray []) = ''[]''"
| "SerializeJSON ind (JArray (x # xs)) =
     ''[\<newline>'' @ (ind @ ''  '') @
     intercalate ('',\<newline>'' @ (ind @ ''  '')) (map (SerializeJSON (ind @ ''  '')) (x # xs)) @
     ''\<newline>'' @ ind @ '']''"
| "SerializeJSON ind (JObject []) = ''{}''"
| "SerializeJSON ind (JObject (kv # kvs)) =
     ''{\<newline>'' @ (ind @ ''  '') @
     intercalate ('',\<newline>'' @ (ind @ ''  ''))
       (map (\<lambda>kv. QuoteJSONString (fst kv) @ '': '' @ SerializeJSON (ind @ ''  '') (snd kv)) (kv # kvs)) @
     ''\<newline>'' @ ind @ ''}''"

section \<open>Data model (\<open>src/types.ts\<close>)\<close>

record DeployConfig =
  projectName :: string
  domain :: string
  ssl :: bool
  email :: "string option"
  clientPort :: nat
  serverPort :: nat
  packageManager :: string
  environment :: string
  autoStart :: bool
  nginxConfig :: bool

record NeexProject =
  hasClient :: bool
  hasServer :: bool
  clientPath :: string
  serverPath :: string
  rootPath :: string
  packageManager :: string

section \<open>The supervisor manifest (\<open>PM2Generator.generateEcosystemConfig\<close>)\<close>

record PM2Env =
  NODE_ENV :: string
  PORT :: nat

record PM2AppConfig =
  name :: string
  script :: string
  args :: string
  cwd :: string
  instances :: nat
  autorestart :: bool
  watch :: bool
  max_memory_restart :: string
  env :: PM2Env

text \<open>The local \<open>apps\<close> array of \<open>generateEcosystemConfig\<close>, after both \<open>if\<close>s.\<close>

definition ecosystemApps :: "DeployConfig \<Rightarrow> NeexProject \<Rightarrow> PM2AppConfig list" where
  "ecosystemApps config project =
     (if hasClient project then
        [\<lparr>name = projectName config @ ''-client'',
          script = DeployConfig.packageManager config,
          args = ''run start:client'',
          cwd = rootPath project,
          instances = 1,
          autorestart = True,
          watch = False,
          max_memory_restart = ''1G'',
          env = \<lparr>NODE_ENV = environment config, PORT = clientPort config\<rparr>\<rparr>]
      else []) @
     (if hasServer project then
        [\<lparr>name = projectName config @ ''-server'',
          script = DeployConfig.packageManager config,
          args = ''run start:server'',
          cwd = rootPath project,
          instances = 1,
          autorestart = True,
          watch = False,
          max_memory_restart = ''1G'',
          env = \<lparr>NODE_ENV = environment config, PORT = serverPort config\<rparr>\<rparr>]
      else [])"

text \<open>An app entry as the JSON value \<open>JSON.stringify\<close> sees: the properties in insertion order.\<close>

definition app_json :: "PM2AppConfig \<Rightarrow> json" where
  "app_json a = JObject
     [(''name'', JString (name a)),
      (''script'', JString (script a)),
      (''args'', JString (args a)),
      (''cwd'', JString (cwd a)),
      (''instances'', JNumber (instances a)),
      (''autorestart'', JBool (autorestart a)),
      (''watch'', JBool (watch a)),
      (''max_memory_restart'', JString (max_memory_restart a)),
      (''env'', JObject [(''NODE_ENV'', JString (NODE_ENV (env a))), (''PORT'', JNumber (PORT (env a)))])]"

definition generateEcosystemConfig :: "DeployConfig \<Rightarrow> NeexProject \<Rightarrow> string" where
  "generateEcosystemConfig config project =
     ''module.exports = {\<newline>'' @
     ''  apps: '' @
     SerializeJSON [] (JArray (map app_json (ecosystemApps config project))) @
     ''\<newline>'' @
     ''};''"

section \<open>The routing document (\<open>NginxGenerator.generateNginxConfig\<close>)\<close>

definition clientUpstream :: "DeployConfig \<Rightarrow> NeexProject \<Rightarrow> string" where
  \<open>clientUpstream config project =
     (if hasClient project then
       ''\<newline>'' @
       ''    upstream client_backend {\<newline>'' @
       ''        server localhost:'' @
       show_nat (clientPort config) @
       '';\<newline>'' @
       ''    }''
      else [])\<close>

definition serverUpstream :: "DeployConfig \<Rightarrow> NeexProject \<Rightarrow> string" where
  \<open>serverUpstream config project =
     (if hasServer project then
       ''\<newline>'' @
       ''    upstream server_backend {\<newline>'' @
       ''        server localhost:'' @
       show_nat (serverPort config) @
       '';\<newline>'' @
       ''    }''
      else [])\<close>

definition clientLocation :: "NeexProject \<Rightarrow> string" where
  \<open>clientLocation project =
     (if hasClient project then
       ''\<newline>'' @
       ''    # Frontend (Next.js)\<newline>'' @
       ''    location / {\<newline>'' @
       ''        proxy_pass http://client_backend;\<newline>'' @
       ''        proxy_http_version 1.1;\<newline>'' @
       ''        proxy_set_header Upgrade $http_upgrade;\<newline>'' @
       ''        proxy_set_header Connection 'upgrade';\<newline>'' @
       ''        proxy_set_header Host $host;\<newline>'' @
       ''        proxy_set_header X-Real-IP $remote_addr;\<newline>'' @
       ''        proxy_set_header X-Forwarded-For $proxy_add_x_forwarded_for;\<newline>'' @
       ''        proxy_set_header X-Forwarded-Proto $scheme;\<newline>'' @
       ''        proxy_cache_bypass $http_upgrade;\<newline>'' @
       ''    }''
      else [])\<close>

definition serverLocation :: "NeexProject \<Rightarrow> string" where
  \<open>serverLocation project =
     (if hasServer project then
       ''\<newline>'' @
       ''    # Backend API (Express)\<newline>'' @
       ''    location /api/ {\<newline>'' @
       ''        proxy_pass http://server_backend/;\<newline>'' @
       ''        proxy_http_version 1.1;\<newline>'' @
       ''        proxy_set_header Upgrade $http_upgrade;\<newline>'' @
       ''        proxy_set_header Connection 'upgrade';\<newline>'' @
       ''        proxy_set_header Host $host;\<newline>'' @
       ''        proxy_set_header X-Real-IP $remote_addr;\<newline>'' @
       ''        proxy_set_header X-Forwarded-For $proxy_add_x_forwarded_for;\<newline>'' @
       ''        proxy_set_header X-Forwarded-Proto $scheme;\<newline>'' @
       ''        proxy_cache_bypass $http_upgrade;\<newline>'' @
       ''    }''
      else [])\<close>

definition generateNginxConfig :: "DeployConfig \<Rightarrow> NeexProject \<Rightarrow> string" where
  \<open>generateNginxConfig config project =
       clientUpstream config project @
       serverUpstream config project @
       ''\<newline>'' @
       ''\<newline>'' @
       ''server {\<newline>'' @
       ''    listen 80;\<newline>'' @
       ''    server_name '' @
       domain config @
       '' www.'' @
       domain config @
       '';\<newline>'' @
       ''    \<newline>'' @
       ''    client_max_body_size 100M;\<newline>'' @
       ''    \<newline>'' @
       ''    # Security headers\<newline>'' @
       ''    add_header X-Frame-Options "SAMEORIGIN" always;\<newline>'' @
       ''    add_header X-XSS-Protection "1; mode=block" always;\<newline>'' @
       ''    add_header X-Content-Type-Options "nosniff" always;\<newline>'' @
       ''    add_header Referrer-Policy "no-referrer-when-downgrade" always;\<newline>'' @
       ''    add_header Content-Security-Policy "default-src 'self' http: https: data: blob: 'unsafe-inline'" always;\<newline>'' @
       ''    '' @
       serverLocation project @
       clientLocation project @
       ''\<newline>'' @
       ''    \<newline>'' @
       ''    # Static files caching\<newline>'' @
       ''    location ~* '' @
       [CHR 0x5C] @
       ''.(js|css|png|jpg|jpeg|gif|ico|svg|woff|woff2|ttf|eot)$ {\<newline>'' @
       ''        expires 1y;\<newline>'' @
       ''        add_header Cache-Control "public, immutable";\<newline>'' @
       ''        '' @
       (if hasClient project then ''proxy_pass http://client_backend;'' else []) @
       ''\<newline>'' @
       ''    }\<newline>'' @
       ''    \<newline>'' @
       ''    # Gzip compression\<newline>'' @
       ''    gzip on;\<newline>'' @
       ''    gzip_vary on;\<newline>'' @
       ''    gzip_min_length 1024;\<newline>'' @
       ''    gzip_proxied expired no-cache no-store private must-revalidate auth;\<newline>'' @
       ''    gzip_types text/plain text/css text/xml text/javascript application/x-javascript application/javascript application/xml+rss application/json;\<newline>'' @
       ''}''\<close>

section \<open>The host: files, external commands and the log\<close>

text \<open>
  Everything the program does to its host is explicit. A \<open>world\<close> holds the files written
  by the program, the external commands it has run (in order) and what it has printed: an
  entry of the log is the level (the coloured mark the \<open>Logger\<close> puts in front, or
  \<open>Console\<close> for a bare \<open>console.log\<close>) and the message. Directories
  (\<open>fs.ensureDir\<close>) and the effect of an external command on the file system are not
  part of the model.
\<close>

datatype level = Success | Error | Warning | Info | Step | Spinner | SpinnerSucceed | Console

type_synonym command = "string \<times> string list \<times> string option"

record world =
  files :: "string \<rightharpoonup> string"
  commands :: "command list"
  printed :: "(level \<times> string) list"

text \<open>
  What the host answers is a parameter, and may depend on the world so far:
  whether \<open>which name\<close> exits with 0, the error of an external command (if it fails), the
  error of a file write (if it fails), the answer of the \<open>detect-port\<close> probe (an error or
  the free port it found), and \<open>process.platform\<close>.
\<close>

record host =
  which_ok :: "world \<Rightarrow> string \<Rightarrow> bool"
  exec_error :: "world \<Rightarrow> command \<Rightarrow> string option"
  write_error :: "world \<Rightarrow> string \<Rightarrow> string option"
  detect_port :: "world \<Rightarrow> nat \<Rightarrow> string + nat"
  platform :: string

text \<open>
  An \<open>async\<close> method either throws (\<open>Failed\<close>, with the error's message and the world as
  it is at the throw) or returns (\<open>Done\<close>). \<open>andThen\<close> is \<open>await\<close> followed by the
  rest of the body: a throw skips the rest.
\<close>

datatype outcome = Failed string world | Done world

definition andThen :: "outcome \<Rightarrow> (world \<Rightarrow> outcome) \<Rightarrow> outcome" where
  "andThen r f = (case r of Failed e w \<Rightarrow> Failed e w | Done w \<Rightarrow> f w)"

subsection \<open>\<open>Logger\<close>\<close>

definition emit :: "level \<Rightarrow> string \<Rightarrow> world \<Rightarrow> world" where
  "emit l message w = w\<lparr>printed := printed w @ [(l, message)]\<rparr>"

definition logger_success :: "string \<Rightarrow> world \<Rightarrow> world" where
  "logger_success = emit Success"

definition logger_error :: "string \<Rightarrow> world \<Rightarrow> world" where
  "logger_error = emit Error"

definition logger_warning :: "string \<Rightarrow> world \<Rightarrow> world" where
  "logger_warning = emit Warning"

definition logger_info :: "string \<Rightarrow> world \<Rightarrow> world" where
  "logger_info = emit Info"

definition logger_step :: "string \<Rightarrow> world \<Rightarrow> world" where
  "logger_step = emit Step"

definition startSpinner :: "string \<Rightarrow> world \<Rightarrow> world" where
  "startSpinner = emit Spinner"

definition updateSpinner :: "string \<Rightarrow> world \<Rightarrow> world" where
  "updateSpinner = emit Spinner"

definition stopSpinner :: "world \<Rightarrow> world" where
  "stopSpinner = emit SpinnerSucceed []"

definition console_log :: "string \<Rightarrow> world \<Rightarrow> world" where
  "console_log = emit Console"

subsection \<open>\<open>SystemUtils\<close>\<close>

text \<open>\<open>execa(command, args, {cwd})\<close>: the command is recorded, then fails or not.\<close>

definition execa :: "host \<Rightarrow> string \<Rightarrow> string list \<Rightarrow> string option \<Rightarrow> world \<Rightarrow> outcome" where
  "execa h command as dir w =
     (case exec_error h w (command, as, dir) of
        Some e \<Rightarrow> Failed e (w\<lparr>commands := commands w @ [(command, as, dir)]\<rparr>)
      | None \<Rightarrow> Done (w\<lparr>commands := commands w @ [(command, as, dir)]\<rparr>))"

text \<open>
  \<open>checkCommand(command)\<close> runs \<open>which\<close> with \<open>command\<close> as its single argument and
  turns a throw into \<open>false\<close>. It is a question to the host: this run of \<open>which\<close> is not
  entered into \<open>commands\<close>.
\<close>

definition checkCommand :: "host \<Rightarrow> world \<Rightarrow> string \<Rightarrow> bool" where
  "checkCommand h w command = which_ok h w command"

definition installPackage :: "host \<Rightarrow> string \<Rightarrow> bool \<Rightarrow> world \<Rightarrow> outcome" where
  "installPackage h packageName global w =
     execa h ''npm'' (if global then [''install'', ''-g'', packageName] else [''install'', packageName]) None w"

definition executeCommand :: "host \<Rightarrow> string \<Rightarrow> string list \<Rightarrow> string option \<Rightarrow> world \<Rightarrow> outcome" where
  "executeCommand h command as dir w = execa h command as dir w"

definition writeFile :: "host \<Rightarrow> string \<Rightarrow> string \<Rightarrow> world \<Rightarrow> outcome" where
  "writeFile h filePath content w =
     (case write_error h w filePath of
        Some e \<Rightarrow> Failed e w
      | None \<Rightarrow> Done (w\<lparr>files := (files w)(filePath \<mapsto> content)\<rparr>))"

definition isPortAvailable :: "host \<Rightarrow> world \<Rightarrow> nat \<Rightarrow> bool" where
  "isPortAvailable h w port =
     (case detect_port h w port of
        Inl e \<Rightarrow> False
      | Inr availablePort \<Rightarrow> availablePort = port)"

datatype os = linux | darwin | windows

definition getOS :: "host \<Rightarrow> os" where
  "getOS h =
     (if platform h = ''darwin'' then darwin
      else if platform h = ''win32'' then windows
      else linux)"

text \<open>
  \<open>try { body } catch (error) { handler }\<close>, and a promise's \<open>.catch(() => {})\<close>, which
  drops the error and goes on from the world the failed call left.
\<close>

definition tryCatch :: "outcome \<Rightarrow> (string \<Rightarrow> world \<Rightarrow> outcome) \<Rightarrow> outcome" where
  "tryCatch r handler = (case r of Failed e w \<Rightarrow> handler e w | Done w \<Rightarrow> Done w)"

definition ignoreError :: "outcome \<Rightarrow> world" where
  "ignoreError r = (case r of Failed e w \<Rightarrow> w | Done w \<Rightarrow> w)"

section \<open>The supervisor controller (\<open>PM2Generator\<close>)\<close>

definition PM2_generate :: "host \<Rightarrow> DeployConfig \<Rightarrow> NeexProject \<Rightarrow> world \<Rightarrow> outcome" where
  "PM2_generate h config project w =
     andThen (writeFile h (rootPath project @ ''/ecosystem.config.js'') (generateEcosystemConfig config project) w)
       (\<lambda>w. Done (logger_success ''PM2 ecosystem.config.js generated'' w))"

definition PM2_install :: "host \<Rightarrow> world \<Rightarrow> outcome" where
  "PM2_install h w =
     (if \<not> checkCommand h w ''pm2'' then
        andThen (installPackage h ''pm2'' True (logger_step ''Installing PM2 globally...'' w))
          (\<lambda>w. Done (logger_success ''PM2 installed'' w))
      else Done (logger_success ''PM2 already installed'' w))"

text \<open>
  \<open>start\<close> as in the first listing of \<open>generators/pm2.ts\<close> (lines 93 to 120): the whole body
  is in a \<open>try\<close> that logs and rethrows, the delete-all ignores its error, and the autostart
  registration has a \<open>try\<close> of its own.
\<close>

definition PM2_start :: "host \<Rightarrow> DeployConfig \<Rightarrow> NeexProject \<Rightarrow> world \<Rightarrow> outcome" where
  "PM2_start h config project w =
     tryCatch
       (andThen
          (executeCommand h ''pm2'' [''start'', ''ecosystem.config.js''] (Some (rootPath project))
             (ignoreError
                (executeCommand h ''pm2'' [''delete'', ''all''] (Some (rootPath project))
                   (logger_step ''Starting PM2 applications...'' w))))
          (\<lambda>w. andThen (executeCommand h ''pm2'' [''save''] None w)
          (\<lambda>w. andThen
             (if autoStart config then
                tryCatch
                  (andThen (executeCommand h ''pm2'' [''startup''] None w)
                     (\<lambda>w. Done (logger_success ''PM2 auto-startup configured'' w)))
                  (\<lambda>e w. Done (logger_warning
                     ''Could not configure PM2 auto-startup. You may need to run this manually with sudo.'' w))
              else Done w)
          (\<lambda>w. Done (logger_success ''PM2 applications started'' w)))))
       (\<lambda>e w. Failed e (logger_error (''Failed to start PM2 applications: '' @ e) w))"

text \<open>
  The file holds a second, shorter listing of the same class (lines 159 to 243). Its
  \<open>generate\<close>, \<open>generateEcosystemConfig\<close> and \<open>install\<close> are the same; its \<open>start\<close>
  (lines 231 to 242) has no delete-all and no \<open>try\<close> at all.
\<close>

definition PM2_start_short :: "host \<Rightarrow> DeployConfig \<Rightarrow> NeexProject \<Rightarrow> world \<Rightarrow> outcome" where
  "PM2_start_short h config project w =
     andThen
       (executeCommand h ''pm2'' [''start'', ''ecosystem.config.js''] (Some (rootPath project))
          (logger_step ''Starting PM2 applications...'' w))
       (\<lambda>w. andThen (executeCommand h ''pm2'' [''save''] None w)
       (\<lambda>w. andThen
          (if autoStart config then executeCommand h ''pm2'' [''startup''] None w else Done w)
       (\<lambda>w. Done (logger_success ''PM2 applications started'' w))))"

section \<open>The proxy controller (\<open>NginxGenerator\<close>)\<close>

definition getConfigPath :: "host \<Rightarrow> DeployConfig \<Rightarrow> string" where
  "getConfigPath h config =
     (if getOS h = darwin then ''/usr/local/etc/nginx/servers/'' @ projectName config @ ''.conf''
      else ''/etc/nginx/sites-available/'' @ projectName config)"

definition generateSetupInstructions :: "host \<Rightarrow> DeployConfig \<Rightarrow> string" where
  \<open>generateSetupInstructions h config =
       ''# Nginx Setup Instructions\<newline>'' @
       ''\<newline>'' @
       ''## 1. Install Nginx (if not already installed)\<newline>'' @
       ''\<newline>'' @
       ''### Ubuntu/Debian:\<newline>'' @
       ''```bash\<newline>'' @
       ''sudo apt update\<newline>'' @
       ''sudo apt install nginx\<newline>'' @
       ''```\<newline>'' @
       ''\<newline>'' @
       ''### CentOS/RHEL:\<newline>'' @
       ''```bash\<newline>'' @
       ''sudo yum install nginx\<newline>'' @
       ''```\<newline>'' @
       ''\<newline>'' @
       ''### macOS:\<newline>'' @
       ''```bash\<newline>'' @
       ''brew install nginx\<newline>'' @
       ''```\<newline>'' @
       ''\<newline>'' @
       ''## 2. Copy configuration\<newline>'' @
       ''\<newline>'' @
       ''### Linux:\<newline>'' @
       ''```bash\<newline>'' @
       ''sudo cp '' @
       getConfigPath h config @
       '' /etc/nginx/sites-available/'' @
       projectName config @
       ''\<newline>'' @
       ''sudo ln -s /etc/nginx/sites-available/'' @
       projectName config @
       '' /etc/nginx/sites-enabled/\<newline>'' @
       ''```\<newline>'' @
       ''\<newline>'' @
       ''### macOS:\<newline>'' @
       ''Configuration is already in the correct location.\<newline>'' @
       ''\<newline>'' @
       ''## 3. Test and restart Nginx\<newline>'' @
       ''\<newline>'' @
       ''```bash\<newline>'' @
       ''sudo nginx -t\<newline>'' @
       ''sudo systemctl restart nginx  # Linux\<newline>'' @
       ''# or\<newline>'' @
       ''sudo brew services restart nginx  # macOS\<newline>'' @
       ''```\<newline>'' @
       ''\<newline>'' @
       ''## 4. Setup SSL (Optional but recommended)\<newline>'' @
       ''\<newline>'' @
       ''```bash\<newline>'' @
       ''sudo apt install certbot python3-certbot-nginx  # Ubuntu/Debian\<newline>'' @
       ''sudo certbot --nginx -d '' @
       domain config @
       ''\<newline>'' @
       ''```\<newline>'' @
       ''\<newline>'' @
       ''## 5. Configure firewall\<newline>'' @
       ''\<newline>'' @
       ''```bash\<newline>'' @
       ''sudo ufw allow 'Nginx Full'  # Ubuntu/Debian\<newline>'' @
       ''```\<newline>'' @
       ''\<newline>'' @
       ''Your site will be available at: http://'' @
       domain config @
       ''\<newline>''\<close>

definition Nginx_generate :: "host \<Rightarrow> DeployConfig \<Rightarrow> NeexProject \<Rightarrow> world \<Rightarrow> outcome" where
  "Nginx_generate h config project w =
     andThen (writeFile h (getConfigPath h config) (generateNginxConfig config project) w)
       (\<lambda>w. andThen
          (writeFile h (rootPath project @ ''/nginx-setup.md'') (generateSetupInstructions h config)
             (logger_success (''Nginx configuration generated at '' @ getConfigPath h config) w))
       (\<lambda>w. Done (logger_info ''Check nginx-setup.md for manual setup steps'' w)))"

definition Nginx_install :: "host \<Rightarrow> world \<Rightarrow> outcome" where
  "Nginx_install h w =
     (if \<not> checkCommand h w ''nginx'' then
        Failed ''Nginx installation required''
          ((if getOS h = linux then
              logger_info ''CentOS/RHEL: sudo yum install nginx'' \<circ>
              logger_info ''Ubuntu/Debian: sudo apt install nginx''
            else if getOS h = darwin then logger_info ''macOS: brew install nginx''
            else id)
             (logger_warning ''Nginx is not installed. Please install it manually:'' w))
      else Done (logger_success ''Nginx already installed'' w))"

section \<open>The pipeline (\<open>Deployer\<close>)\<close>

definition checkPrerequisites :: "host \<Rightarrow> NeexProject \<Rightarrow> world \<Rightarrow> outcome" where
  "checkPrerequisites h project w =
     (if \<not> checkCommand h (logger_step ''Checking prerequisites...'' w) ''node'' then
        Failed ''Node.js is not installed'' (logger_step ''Checking prerequisites...'' w)
      else if \<not> checkCommand h (logger_step ''Checking prerequisites...'' w) (NeexProject.packageManager project) then
        Failed (NeexProject.packageManager project @ '' is not installed'')
          (logger_step ''Checking prerequisites...'' w)
      else Done (logger_success ''Prerequisites checked'' (logger_step ''Checking prerequisites...'' w)))"

definition buildProject :: "host \<Rightarrow> NeexProject \<Rightarrow> world \<Rightarrow> outcome" where
  "buildProject h project w =
     andThen
       (executeCommand h (NeexProject.packageManager project) [''install''] (Some (rootPath project))
          (startSpinner ''Installing dependencies...'' (logger_step ''Building project...'' w)))
       (\<lambda>w. andThen
          (executeCommand h (NeexProject.packageManager project) [''run'', ''build''] (Some (rootPath project))
             (updateSpinner ''Building applications...'' w))
       (\<lambda>w. Done (logger_success ''Project built successfully'' (stopSpinner w))))"

definition envContent :: "DeployConfig \<Rightarrow> string" where
  \<open>envContent config =
       ''NODE_ENV='' @
       environment config @
       ''\<newline>'' @
       ''DATABASE_URL="your-database-connection-string"\<newline>'' @
       ''PORT_CLIENT='' @
       show_nat (clientPort config) @
       ''\<newline>'' @
       ''PORT_SERVER='' @
       show_nat (serverPort config) @
       ''\<newline>'' @
       ''# Add your other environment variables here\<newline>''\<close>

text \<open>
  \<open>envExists\<close> is the answer of \<open>checkCommand\<close> on the text \<open>test -f <root>/.env\<close>, that
  is of \<open>which\<close> with that text as its one argument.
\<close>

definition generateEnvironment :: "host \<Rightarrow> DeployConfig \<Rightarrow> NeexProject \<Rightarrow> world \<Rightarrow> outcome" where
  "generateEnvironment h config project w =
     (if \<not> checkCommand h w (''test -f '' @ (rootPath project @ ''/.env'')) then
        andThen (writeFile h (rootPath project @ ''/.env'') (envContent config) w)
          (\<lambda>w. Done (logger_warning ''Please update .env with your actual values''
                   (logger_success ''.env file created'' w)))
      else Done (logger_success ''.env file already exists'' w))"

definition setupPM2 :: "host \<Rightarrow> DeployConfig \<Rightarrow> NeexProject \<Rightarrow> world \<Rightarrow> outcome" where
  "setupPM2 h config project w =
     andThen (PM2_install h (logger_step ''Setting up PM2...'' w))
       (\<lambda>w. andThen (PM2_generate h config project w)
       (\<lambda>w. PM2_start h config project w))"

definition setupNginx :: "host \<Rightarrow> DeployConfig \<Rightarrow> NeexProject \<Rightarrow> world \<Rightarrow> outcome" where
  "setupNginx h config project w =
     tryCatch
       (andThen (Nginx_install h (logger_step ''Setting up Nginx...'' w))
          (\<lambda>w. Nginx_generate h config project w))
       (\<lambda>e w. Done (logger_warning (''Nginx setup requires manual intervention: '' @ e) w))"

definition statusScript :: "DeployConfig \<Rightarrow> string" where
  \<open>statusScript config =
       ''#!/bin/bash\<newline>'' @
       ''echo "=== PM2 Status ==="\<newline>'' @
       ''pm2 status\<newline>'' @
       ''\<newline>'' @
       ''echo -e "'' @
       [CHR 0x5C] @
       ''n=== PM2 Logs (last 20 lines) ==="\<newline>'' @
       ''pm2 logs --lines 20\<newline>'' @
       ''\<newline>'' @
       ''echo -e "'' @
       [CHR 0x5C] @
       ''n=== Port Status ==="\<newline>'' @
       ''netstat -tulpn | grep -E ":('' @
       show_nat (clientPort config) @
       ''|'' @
       show_nat (serverPort config) @
       ''|80|443)" || true\<newline>'' @
       ''\<newline>'' @
       ''echo -e "'' @
       [CHR 0x5C] @
       ''n=== System Resources ==="\<newline>'' @
       ''df -h\<newline>'' @
       ''free -h 2>/dev/null || top -l 1 | grep -E "^(Processes|PhysMem)"\<newline>''\<close>

definition restartScript :: string where
  \<open>restartScript =
       ''#!/bin/bash\<newline>'' @
       ''echo "Restarting services..."\<newline>'' @
       ''pm2 restart all\<newline>'' @
       ''echo "Services restarted!"\<newline>''\<close>

definition createManagementScripts :: "host \<Rightarrow> DeployConfig \<Rightarrow> NeexProject \<Rightarrow> world \<Rightarrow> outcome" where
  "createManagementScripts h config project w =
     andThen
       (writeFile h (rootPath project @ ''/status.sh'') (statusScript config)
          (logger_step ''Creating management scripts...'' w))
       (\<lambda>w. andThen (executeCommand h ''chmod'' [''+x'', ''status.sh''] (Some (rootPath project)) w)
       (\<lambda>w. andThen (writeFile h (rootPath project @ ''/restart.sh'') restartScript w)
       (\<lambda>w. andThen (executeCommand h ''chmod'' [''+x'', ''restart.sh''] (Some (rootPath project)) w)
       (\<lambda>w. Done (logger_success ''Management scripts created'' w)))))"

text \<open>The three seconds \<open>performFinalChecks\<close> waits before it probes are not modelled.\<close>

definition checkClientPort :: "host \<Rightarrow> DeployConfig \<Rightarrow> NeexProject \<Rightarrow> world \<Rightarrow> world" where
  "checkClientPort h config project w =
     (if hasClient project then
        (if isPortAvailable h w (clientPort config) then
           logger_warning (''Client port '' @ show_nat (clientPort config) @
             '' seems to be available (service might not be running)'') w
         else logger_success (''Client is running on port '' @ show_nat (clientPort config)) w)
      else w)"

definition checkServerPort :: "host \<Rightarrow> DeployConfig \<Rightarrow> NeexProject \<Rightarrow> world \<Rightarrow> world" where
  "checkServerPort h config project w =
     (if hasServer project then
        (if isPortAvailable h w (serverPort config) then
           logger_warning (''Server port '' @ show_nat (serverPort config) @
             '' seems to be available (service might not be running)'') w
         else logger_success (''Server is running on port '' @ show_nat (serverPort config)) w)
      else w)"

definition performFinalChecks :: "host \<Rightarrow> DeployConfig \<Rightarrow> NeexProject \<Rightarrow> world \<Rightarrow> outcome" where
  "performFinalChecks h config project w =
     Done (checkServerPort h config project
            (checkClientPort h config project (logger_step ''Performing final checks...'' w)))"

text \<open>The arguments of the \<open>console.log\<close> calls of \<open>printPostDeploymentInfo\<close>, in order.\<close>

definition postDeploymentInfo :: "DeployConfig \<Rightarrow> NeexProject \<Rightarrow> string list" where
  \<open>postDeploymentInfo config project =
     [''\<newline>'' @ replicate 60 (CHR ''=''),
      [CHR 0xF0, CHR 0x9F, CHR 0x8E, CHR 0x89] @ '' DEPLOYMENT COMPLETED SUCCESSFULLY!'',
      replicate 60 (CHR ''=''),
      ''\<newline>'' @ [CHR 0xF0, CHR 0x9F, CHR 0x93, CHR 0x8B] @ '' Your application is now running:''] @
     (if hasClient project then [''   Frontend: http://localhost:'' @ show_nat (clientPort config)] else []) @
     (if hasServer project then [''   Backend:  http://localhost:'' @ show_nat (serverPort config)] else []) @
     (if domain config \<noteq> ''localhost'' then [''   Public:   http://'' @ domain config] else []) @
     [''\<newline>'' @ [CHR 0xF0, CHR 0x9F, CHR 0x94, CHR 0xA7] @ '' Management commands:'',
      ''   Check status: ./status.sh'',
      ''   Restart:      ./restart.sh'',
      ''   PM2 logs:     pm2 logs'',
      ''   PM2 monitor:  pm2 monit'',
      ''\<newline>'' @ [CHR 0xF0, CHR 0x9F, CHR 0x93, CHR 0x9D] @ '' Next steps:'',
      ''   1. Update .env file with your actual values''] @
     (if nginxConfig config then
        [''   2. Follow nginx-setup.md for Nginx configuration'',
         ''   3. Setup SSL certificate for production'']
      else []) @
     [''   4. Configure your firewall to allow HTTP/HTTPS traffic'',
      ''\<newline>'' @ replicate 60 (CHR ''='')]\<close>

definition printPostDeploymentInfo :: "DeployConfig \<Rightarrow> NeexProject \<Rightarrow> world \<Rightarrow> world" where
  "printPostDeploymentInfo config project w = fold console_log (postDeploymentInfo config project) w"

definition deploy :: "host \<Rightarrow> DeployConfig \<Rightarrow> NeexProject \<Rightarrow> world \<Rightarrow> outcome" where
  "deploy h config project w =
     tryCatch
       (andThen (checkPrerequisites h project
                   (logger_info ([CHR 0xF0, CHR 0x9F, CHR 0x9A, CHR 0x80] @ '' Starting deployment of '' @
                      projectName config) w))
          (\<lambda>w. andThen (buildProject h project w)
          (\<lambda>w. andThen (generateEnvironment h config project w)
          (\<lambda>w. andThen (setupPM2 h config project w)
          (\<lambda>w. andThen (if nginxConfig config then setupNginx h config project w else Done w)
          (\<lambda>w. andThen (createManagementScripts h config project w)
          (\<lambda>w. andThen (performFinalChecks h config project w)
          (\<lambda>w. Done (printPostDeploymentInfo config project
                   (logger_success ([CHR 0xF0, CHR 0x9F, CHR 0x8E, CHR 0x89] @
                      '' Deployment completed successfully!'') w))))))))))
       (\<lambda>e w. Failed e (logger_error (''Deployment failed: '' @ e) w))"

text \<open>
  \<open>setupPM2\<close> and \<open>deploy\<close> once more, with \<open>this.pm2.start\<close> bound to the \<open>start\<close> of
  the second listing of \<open>PM2Generator\<close>; nothing else differs.
\<close>

definition setupPM2_short :: "host \<Rightarrow> DeployConfig \<Rightarrow> NeexProject \<Rightarrow> world \<Rightarrow> outcome" where
  "setupPM2_short h config project w =
     andThen (PM2_install h (logger_step ''Setting up PM2...'' w))
       (\<lambda>w. andThen (PM2_generate h config project w)
       (\<lambda>w. PM2_start_short h config project w))"

definition deploy_short :: "host \<Rightarrow> DeployConfig \<Rightarrow> NeexProject \<Rightarrow> world \<Rightarrow> outcome" where
  "deploy_short h config project w =
     tryCatch
       (andThen (checkPrerequisites h project
                   (logger_info ([CHR 0xF0, CHR 0x9F, CHR 0x9A, CHR 0x80] @ '' Starting deployment of '' @
                      projectName config) w))
          (\<lambda>w. andThen (buildProject h project w)
          (\<lambda>w. andThen (generateEnvironment h config project w)
          (\<lambda>w. andThen (setupPM2_short h config project w)
          (\<lambda>w. andThen (if nginxConfig config then setupNginx h config project w else Done w)
          (\<lambda>w. andThen (createManagementScripts h config project w)
          (\<lambda>w. andThen (performFinalChecks h config project w)
          (\<lambda>w. Done (printPostDeploymentInfo config project
                   (logger_success ([CHR 0xF0, CHR 0x9F, CHR 0x8E, CHR 0x89] @
                      '' Deployment completed successfully!'') w))))))))))
       (\<lambda>e w. Failed e (logger_error (''Deployment failed: '' @ e) w))"

section \<open>Reading a generated text line by line\<close>

text \<open>
  The lines of a text, split at the line feed: \<open>first_line\<close> is the text before the first
  line feed, \<open>more_lines\<close> the lines after it.
\<close>

fun first_line :: "string \<Rightarrow> string" where
  "first_line [] = []"
| "first_line (c # cs) = (if c = CHR 0x0A then [] else c # first_line cs)"

fun more_lines :: "string \<Rightarrow> string list" where
  "more_lines [] = []"
| "more_lines (c # cs) = (if c = CHR 0x0A then first_line cs # more_lines cs else more_lines cs)"

definition doc_lines :: "string \<Rightarrow> string list" where
  "doc_lines s = first_line s # more_lines s"

fun starts_with :: "string \<Rightarrow> string \<Rightarrow> bool" where
  "starts_with [] s = True"
| "starts_with (p # ps) [] = False"
| "starts_with (p # ps) (c # cs) = (p = c \<and> starts_with ps cs)"

text \<open>The line that opens an \<open>upstream\<close> or a \<open>location\<close> block of the routing document.\<close>

definition is_block_head :: "string \<Rightarrow> bool" where
  "is_block_head l = (starts_with ''    upstream '' l \<or> starts_with ''    location '' l)"

text \<open>\<open>keep bs xs\<close> selects the elements of \<open>xs\<close> whose flag in \<open>bs\<close> is set.\<close>

fun keep :: "bool list \<Rightarrow> 'a list \<Rightarrow> 'a list" where
  "keep (True # bs) (x # xs) = x # keep bs xs"
| "keep (False # bs) (x # xs) = keep bs xs"
| "keep [] xs = []"
| "keep bs [] = []"

section \<open>Looking at an outcome\<close>

text \<open>The world an outcome carries, and whether it is a return.\<close>

definition world_of :: "outcome \<Rightarrow> world" where
  "world_of r = (case r of Failed e w \<Rightarrow> w | Done w \<Rightarrow> w)"

definition succeeded :: "outcome \<Rightarrow> bool" where
  "succeeded r = (case r of Failed e w \<Rightarrow> False | Done w \<Rightarrow> True)"

text \<open>The log only grows.\<close>

definition log_grows :: "world \<Rightarrow> world \<Rightarrow> bool" where
  "log_grows w w' = (\<exists>new. printed w' = printed w @ new)"

section \<open>The pipeline as a list of steps\<close>

text \<open>
  The steps of the specification and the method of \<open>Deployer\<close> that each one stands for.
\<close>

datatype step =
    CheckPrerequisites
  | Build
  | MaterializeEnvironment
  | SetupSupervisor
  | SetupProxy
  | GenerateManagementScripts
  | VerifyDeployment

fun runStep :: "host \<Rightarrow> DeployConfig \<Rightarrow> NeexProject \<Rightarrow> step \<Rightarrow> world \<Rightarrow> outcome" where
  "runStep h config project CheckPrerequisites w = checkPrerequisites h project w"
| "runStep h config project Build w = buildProject h project w"
| "runStep h config project MaterializeEnvironment w = generateEnvironment h config project w"
| "runStep h config project SetupSupervisor w = setupPM2 h config project w"
| "runStep h config project SetupProxy w = setupNginx h config project w"
| "runStep h config project GenerateManagementScripts w = createManagementScripts h config project w"
| "runStep h config project VerifyDeployment w = performFinalChecks h config project w"

definition stepList :: "DeployConfig \<Rightarrow> step list" where
  "stepList config =
     [CheckPrerequisites, Build, MaterializeEnvironment, SetupSupervisor] @
     (if nginxConfig config then [SetupProxy] else []) @
     [GenerateManagementScripts, VerifyDeployment]"

text \<open>
  Running a list of steps in order, as the specification words it: a step that fails ends
  the run, with the failure as the result, and no later step is entered. The result is the
  list of the steps entered and the outcome.
\<close>

fun runSteps :: "host \<Rightarrow> DeployConfig \<Rightarrow> NeexProject \<Rightarrow> step list \<Rightarrow> world \<Rightarrow> step list \<times> outcome" where
  "runSteps h config project [] w = ([], Done w)"
| "runSteps h config project (x # xs) w =
     (case runStep h config project x w of
        Failed e w' \<Rightarrow> ([x], Failed e w')
      | Done w' \<Rightarrow>
          (x # fst (runSteps h config project xs w'), snd (runSteps h config project xs w')))"

text \<open>The first statement of \<open>deploy\<close>, and its last two (on success).\<close>

definition started :: "DeployConfig \<Rightarrow> world \<Rightarrow> world" where
  "started config w =
     logger_info ([CHR 0xF0, CHR 0x9F, CHR 0x9A, CHR 0x80] @ '' Starting deployment of '' @
       projectName config) w"

definition finished :: "DeployConfig \<Rightarrow> NeexProject \<Rightarrow> world \<Rightarrow> world" where
  "finished config project w =
     printPostDeploymentInfo config project
       (logger_success ([CHR 0xF0, CHR 0x9F, CHR 0x8E, CHR 0x89] @
          '' Deployment completed successfully!'') w)"

text \<open>
  Everything but the proxy controller and the two best-effort supervisor commands works:
  node and the package manager are found, every external command other than
  \<open>pm2 startup\<close> and \<open>pm2 delete all\<close> succeeds, and so do the writes of the
  environment file, of the manifest and of the two scripts.
\<close>

definition others_succeed :: "host \<Rightarrow> NeexProject \<Rightarrow> bool" where
  "others_succeed h project =
     (\<forall>w. which_ok h w ''node'' \<and>
          which_ok h w (NeexProject.packageManager project) \<and>
          (\<forall>c. c \<noteq> (''pm2'', [''startup''], None) \<and>
               c \<noteq> (''pm2'', [''delete'', ''all''], Some (rootPath project)) \<longrightarrow>
               exec_error h w c = None) \<and>
          write_error h w (rootPath project @ ''/.env'') = None \<and>
          write_error h w (rootPath project @ ''/ecosystem.config.js'') = None \<and>
          write_error h w (rootPath project @ ''/status.sh'') = None \<and>
          write_error h w (rootPath project @ ''/restart.sh'') = None)"

section \<open>Example inputs\<close>

text \<open>The scenario of the specification: project \<open>blog\<close> on \<open>localhost\<close>, both subsystems.\<close>

definition blog_config :: DeployConfig where
  "blog_config =
     \<lparr>projectName = ''blog'', domain = ''localhost'', ssl = False, email = None,
      clientPort = 3000, serverPort = 8000, packageManager = ''npm'',
      environment = ''production'', autoStart = True, nginxConfig = True\<rparr>"

definition blog_project :: NeexProject where
  "blog_project =
     \<lparr>hasClient = True, hasServer = True, clientPath = ''/app/apps/client'',
      serverPath = ''/app/apps/server'', rootPath = ''/app'', packageManager = ''npm''\<rparr>"

text \<open>The second scenario of the specification: the same project without a client.\<close>

definition api_project :: NeexProject where
  "api_project = blog_project\<lparr>hasClient := False\<rparr>"

definition empty_world :: world where
  "empty_world = \<lparr>files = Map.empty, commands = [], printed = []\<rparr>"

text \<open>
  A host on which node, npm, pm2 and nginx are installed, every command and every write
  succeeds, and both ports are taken when probed (the probe answers the next port).
\<close>

definition typical_host :: host where
  "typical_host =
     \<lparr>which_ok = (\<lambda>w c. c \<in> set [''node'', ''npm'', ''pm2'', ''nginx'']),
      exec_error = (\<lambda>w c. None),
      write_error = (\<lambda>w path. None),
      detect_port = (\<lambda>w port. Inr (Suc port)),
      platform = ''linux''\<rparr>"

text \<open>The same host without nginx.\<close>

definition no_nginx_host :: host where
  "no_nginx_host = typical_host\<lparr>which_ok := (\<lambda>w c. c \<in> set [''node'', ''npm'', ''pm2''])\<rparr>"

text \<open>The same host, on which \<open>pm2 startup\<close> fails for lack of privilege.\<close>

definition no_sudo_host :: host where
  "no_sudo_host =
     typical_host\<lparr>exec_error :=
       (\<lambda>w c. if c = (''pm2'', [''startup''], None) then Some ''EACCES: permission denied'' else None)\<rparr>"

text \<open>A world in which the operator has already put secrets into \<open>/app/.env\<close>.\<close>

definition secrets_world :: world where
  \<open>secrets_world = empty_world\<lparr>files := [''/app/.env'' \<mapsto> ''API_KEY=secret\<newline>'']\<rparr>\<close>

text \<open>A world with scripts left by an earlier run.\<close>

definition old_scripts_world :: world where
  "old_scripts_world =
     empty_world\<lparr>files := [''/app/status.sh'' \<mapsto> ''old status'', ''/app/restart.sh'' \<mapsto> ''old restart'']\<rparr>"

text \<open>A host on which \<open>which\<close> finds nothing, not even node.\<close>

definition bare_host :: host where
  "bare_host = typical_host\<lparr>which_ok := (\<lambda>w c. False)\<rparr>"

text \<open>Two more hosts: one whose ports are free, one whose probe fails.\<close>

definition free_ports_host :: host where
  "free_ports_host = typical_host\<lparr>detect_port := (\<lambda>w port. Inr port)\<rparr>"

definition broken_probe_host :: host where
  "broken_probe_host = typical_host\<lparr>detect_port := (\<lambda>w port. Inl ''Cannot find module detect-port'')\<rparr>"

section \<open>Facts about texts\<close>

lemma first_line_nil: "first_line [] = []"
  by simp

lemma more_lines_nil: "more_lines [] = []"
  by simp

lemma first_line_newline: "first_line (CHR 0x0A # cs) = []"
  by simp

lemma first_line_other: "c \<noteq> CHR 0x0A \<Longrightarrow> first_line (c # cs) = c # first_line cs"
  by simp

lemma more_lines_newline: "more_lines (CHR 0x0A # cs) = first_line cs # more_lines cs"
  by simp

lemma more_lines_other: "c \<noteq> CHR 0x0A \<Longrightarrow> more_lines (c # cs) = more_lines cs"
  by simp

lemma first_line_append: "CHR 0x0A \<notin> set xs \<Longrightarrow> first_line (xs @ ys) = xs @ first_line ys"
  by (induction xs) auto

lemma more_lines_append: "CHR 0x0A \<notin> set xs \<Longrightarrow> more_lines (xs @ ys) = more_lines ys"
  by (induction xs) auto

declare first_line.simps [simp del] more_lines.simps [simp del]

lemma digit_char_not_newline: "d < 10 \<Longrightarrow> digit_char d \<noteq> CHR 0x0A"
proof -
  assume "d < 10"
  then have "''0123456789'' ! d \<in> set ''0123456789''"
    by (intro nth_mem) simp
  then show ?thesis
    unfolding digit_char_def by auto
qed

lemma show_nat_no_newline: "CHR 0x0A \<notin> set (show_nat n)"
proof (induction n rule: show_nat.induct)
  case (1 n)
  show ?case
  proof (cases "n < 10")
    case True
    then show ?thesis
      using digit_char_not_newline [of n] by (auto simp add: show_nat.simps [of n])
  next
    case False
    then show ?thesis
      using 1 digit_char_not_newline [of "n mod 10"] by (auto simp add: show_nat.simps [of n])
  qed
qed

lemma hex_digit_not_newline: "d < 16 \<Longrightarrow> hex_digit d \<noteq> CHR 0x0A"
proof -
  assume "d < 16"
  then have "''0123456789abcdef'' ! d \<in> set ''0123456789abcdef''"
    by (intro nth_mem) simp
  then show ?thesis
    unfolding hex_digit_def by auto
qed

lemma json_escape_char_no_newline: "CHR 0x0A \<notin> set (json_escape_char c)"
proof (cases "(of_char c :: nat) < 32")
  case True
  then have "(of_char c :: nat) div 16 < 16" by simp
  moreover have "(of_char c :: nat) mod 16 < 16" by simp
  ultimately show ?thesis
    using hex_digit_not_newline [of "of_char c div 16"] hex_digit_not_newline [of "of_char c mod 16"]
    by (auto simp: json_escape_char_def)
next
  case False
  then show ?thesis by (auto simp: json_escape_char_def)
qed

lemma QuoteJSONString_no_newline: "CHR 0x0A \<notin> set (QuoteJSONString s)"
  by (induction s) (use json_escape_char_no_newline in \<open>auto simp: QuoteJSONString_def\<close>)

lemma filter_as_keep: "filter P xs = keep (map P xs) xs"
  by (induction xs) auto

lemmas line_rules =
  first_line_nil more_lines_nil first_line_newline first_line_other
  more_lines_newline more_lines_other
  first_line_append [OF show_nat_no_newline] more_lines_append [OF show_nat_no_newline]
  first_line_append [OF QuoteJSONString_no_newline] more_lines_append [OF QuoteJSONString_no_newline]
  first_line_append more_lines_append

lemmas nginx_defs =
  generateNginxConfig_def clientUpstream_def serverUpstream_def clientLocation_def serverLocation_def

lemma nginx_block_heads:
  assumes "CHR 0x0A \<notin> set (domain config)"
  shows "filter is_block_head (doc_lines (generateNginxConfig config project)) =
     (if hasClient project then [''    upstream client_backend {''] else []) @
     (if hasServer project then [''    upstream server_backend {''] else []) @
     (if hasServer project then [''    location /api/ {''] else []) @
     (if hasClient project then [''    location / {''] else []) @
     [''    location ~* '' @ [CHR 0x5C] @ ''.(js|css|png|jpg|jpeg|gif|ico|svg|woff|woff2|ttf|eot)$ {'']"
  using assms
  by (cases "hasClient project"; cases "hasServer project")
     (simp_all add: nginx_defs is_block_head_def doc_lines_def line_rules filter_as_keep)

lemma nginx_proxy_pass_lines:
  assumes "CHR 0x0A \<notin> set (domain config)"
  shows "filter (starts_with ''        proxy_pass '') (doc_lines (generateNginxConfig config project)) =
     (if hasServer project then [''        proxy_pass http://server_backend/;''] else []) @
     (if hasClient project then [''        proxy_pass http://client_backend;''] else []) @
     (if hasClient project then [''        proxy_pass http://client_backend;''] else [])"
  using assms
  by (cases "hasClient project"; cases "hasServer project")
     (simp_all add: nginx_defs doc_lines_def line_rules filter_as_keep)

lemma nginx_upstream_server_lines:
  assumes "CHR 0x0A \<notin> set (domain config)"
  shows "filter (starts_with ''        server localhost:'') (doc_lines (generateNginxConfig config project)) =
     (if hasClient project then [''        server localhost:'' @ show_nat (clientPort config) @ '';''] else []) @
     (if hasServer project then [''        server localhost:'' @ show_nat (serverPort config) @ '';''] else [])"
  using assms
  by (cases "hasClient project"; cases "hasServer project")
     (simp_all add: nginx_defs doc_lines_def line_rules filter_as_keep)

lemma quote_literals:
  \<open>QuoteJSONString ''name'' = ''"name"''\<close>
  \<open>QuoteJSONString ''script'' = ''"script"''\<close>
  \<open>QuoteJSONString ''args'' = ''"args"''\<close>
  \<open>QuoteJSONString ''cwd'' = ''"cwd"''\<close>
  \<open>QuoteJSONString ''instances'' = ''"instances"''\<close>
  \<open>QuoteJSONString ''autorestart'' = ''"autorestart"''\<close>
  \<open>QuoteJSONString ''watch'' = ''"watch"''\<close>
  \<open>QuoteJSONString ''max_memory_restart'' = ''"max_memory_restart"''\<close>
  \<open>QuoteJSONString ''env'' = ''"env"''\<close>
  \<open>QuoteJSONString ''NODE_ENV'' = ''"NODE_ENV"''\<close>
  \<open>QuoteJSONString ''PORT'' = ''"PORT"''\<close>
  \<open>QuoteJSONString ''run start:client'' = ''"run start:client"''\<close>
  \<open>QuoteJSONString ''run start:server'' = ''"run start:server"''\<close>
  \<open>QuoteJSONString ''1G'' = ''"1G"''\<close>
  by (simp_all add: QuoteJSONString_def json_escape_char_def)

lemma show_nat_one: "show_nat (Suc 0) = ''1''"
  by (simp add: show_nat.simps digit_char_def)

lemmas manifest_defs =
  generateEcosystemConfig_def ecosystemApps_def app_json_def quote_literals show_nat_one

lemma manifest_name_lines:
  \<open>filter (starts_with ''    "name": '') (doc_lines (generateEcosystemConfig config project)) =
     (if hasClient project
      then [''    "name": '' @ QuoteJSONString (projectName config @ ''-client'') @ '','']
      else []) @
     (if hasServer project
      then [''    "name": '' @ QuoteJSONString (projectName config @ ''-server'') @ '','']
      else [])\<close>
  by (cases "hasClient project"; cases "hasServer project")
     (simp_all add: manifest_defs doc_lines_def line_rules filter_as_keep)

lemma manifest_port_lines:
  \<open>filter (starts_with ''      "PORT": '') (doc_lines (generateEcosystemConfig config project)) =
     (if hasClient project then [''      "PORT": '' @ show_nat (clientPort config)] else []) @
     (if hasServer project then [''      "PORT": '' @ show_nat (serverPort config)] else [])\<close>
  by (cases "hasClient project"; cases "hasServer project")
     (simp_all add: manifest_defs doc_lines_def line_rules filter_as_keep)

section \<open>Facts about the host operations\<close>

lemma emit_frame [simp]:
  "files (emit l m w) = files w" "commands (emit l m w) = commands w"
  "printed (emit l m w) = printed w @ [(l, m)]"
  by (simp_all add: emit_def)

lemmas logger_defs =
  logger_success_def logger_error_def logger_warning_def logger_info_def logger_step_def
  startSpinner_def updateSpinner_def stopSpinner_def console_log_def

lemma world_of_simps [simp]: "world_of (Failed e w) = w" "world_of (Done w) = w"
  by (simp_all add: world_of_def)

lemma andThen_simps [simp]:
  "andThen (Failed e w) f = Failed e w" "andThen (Done w) f = f w"
  by (simp_all add: andThen_def)

lemma tryCatch_simps [simp]:
  "tryCatch (Failed e w) handler = handler e w" "tryCatch (Done w) handler = Done w"
  by (simp_all add: tryCatch_def)

lemma ignoreError_simps [simp]: "ignoreError (Failed e w) = w" "ignoreError (Done w) = w"
  by (simp_all add: ignoreError_def)

lemma log_grows_refl [simp]: "log_grows w w"
  by (simp add: log_grows_def)

lemma log_grows_trans: "log_grows w w1 \<Longrightarrow> log_grows w1 w2 \<Longrightarrow> log_grows w w2"
  by (auto simp: log_grows_def)

lemma log_grows_emit [simp]: "log_grows w (emit l m w)"
  by (simp add: log_grows_def)

lemma log_grows_emit_after: "log_grows w w1 \<Longrightarrow> log_grows w (emit l m w1)"
  by (auto simp: log_grows_def)

lemma log_grows_mem: "log_grows w w' \<Longrightarrow> x \<in> set (printed w) \<Longrightarrow> x \<in> set (printed w')"
  by (auto simp: log_grows_def)

lemma execa_grows: "log_grows w (world_of (execa h command as dir w))"
  by (simp add: execa_def log_grows_def split: option.splits)

lemma writeFile_grows: "log_grows w (world_of (writeFile h filePath content w))"
  by (simp add: writeFile_def log_grows_def split: option.splits)

lemma andThen_grows:
  assumes "log_grows w (world_of r)" and "\<And>w1. log_grows w1 (world_of (f w1))"
  shows "log_grows w (world_of (andThen r f))"
proof (cases r)
  case (Failed e w1)
  with assms(1) show ?thesis by simp
next
  case (Done w1)
  with assms(1) assms(2) [of w1] show ?thesis by (auto intro: log_grows_trans)
qed

lemma tryCatch_grows:
  assumes "log_grows w (world_of r)" and "\<And>e w1. log_grows w1 (world_of (handler e w1))"
  shows "log_grows w (world_of (tryCatch r handler))"
proof (cases r)
  case (Failed e w1)
  with assms(1) assms(2) [of w1 e] show ?thesis by (auto intro: log_grows_trans)
next
  case (Done w1)
  with assms(1) show ?thesis by simp
qed

lemma fold_console_log: "printed (fold console_log ls w) = printed w @ map (Pair Console) ls"
  by (induction ls arbitrary: w) (simp_all add: console_log_def)

lemma fold_emit_Console: "printed (fold (emit Console) ls w) = printed w @ map (Pair Console) ls"
  using fold_console_log by (simp add: console_log_def)

lemma fold_console_log_frame:
  "files (fold console_log ls w) = files w" "commands (fold console_log ls w) = commands w"
  by (induction ls arbitrary: w) (simp_all add: console_log_def)

lemma execa_grows_after:
  "log_grows w w1 \<Longrightarrow> log_grows w (world_of (execa h command as dir w1))"
  using execa_grows log_grows_trans by blast

lemma writeFile_grows_after:
  "log_grows w w1 \<Longrightarrow> log_grows w (world_of (writeFile h filePath content w1))"
  using writeFile_grows log_grows_trans by blast

lemma if_grows:
  "(b \<Longrightarrow> log_grows w (world_of r1)) \<Longrightarrow> (\<not> b \<Longrightarrow> log_grows w (world_of r2)) \<Longrightarrow>
   log_grows w (world_of (if b then r1 else r2))"
  by simp

lemmas grows_intros =
  andThen_grows tryCatch_grows if_grows execa_grows_after writeFile_grows_after
  log_grows_emit_after log_grows_refl

lemmas host_defs = executeCommand_def installPackage_def checkCommand_def

lemma PM2_install_grows: "log_grows w (world_of (PM2_install h w))"
  unfolding PM2_install_def logger_defs host_defs
  by (intro grows_intros | simp)+

lemma PM2_generate_grows: "log_grows w (world_of (PM2_generate h config project w))"
  unfolding PM2_generate_def logger_defs host_defs
  by (intro grows_intros | simp)+

lemma ignoreError_grows_after:
  "log_grows w (world_of r) \<Longrightarrow> log_grows w (ignoreError r)"
  by (cases r) simp_all

lemma PM2_start_grows: "log_grows w (world_of (PM2_start h config project w))"
  unfolding PM2_start_def logger_defs host_defs
  by (intro grows_intros ignoreError_grows_after | simp)+

lemma Nginx_install_grows: "log_grows w (world_of (Nginx_install h w))"
  by (simp add: Nginx_install_def logger_defs host_defs log_grows_def)

lemma Nginx_generate_grows: "log_grows w (world_of (Nginx_generate h config project w))"
  unfolding Nginx_generate_def logger_defs host_defs
  by (intro grows_intros | simp)+

lemma checkPrerequisites_grows: "log_grows w (world_of (checkPrerequisites h project w))"
  unfolding checkPrerequisites_def logger_defs host_defs
  by (intro grows_intros | simp)+

lemma buildProject_grows: "log_grows w (world_of (buildProject h project w))"
  unfolding buildProject_def logger_defs host_defs
  by (intro grows_intros | simp)+

lemma generateEnvironment_grows: "log_grows w (world_of (generateEnvironment h config project w))"
  unfolding generateEnvironment_def logger_defs host_defs
  by (intro grows_intros | simp)+

lemma setupPM2_grows: "log_grows w (world_of (setupPM2 h config project w))"
  unfolding setupPM2_def logger_step_def
  by (intro andThen_grows log_grows_trans [OF log_grows_emit PM2_install_grows]
        PM2_generate_grows PM2_start_grows)

lemma setupNginx_grows: "log_grows w (world_of (setupNginx h config project w))"
  unfolding setupNginx_def logger_step_def logger_warning_def
  by (intro tryCatch_grows andThen_grows log_grows_trans [OF log_grows_emit Nginx_install_grows]
        Nginx_generate_grows | simp)+

lemma createManagementScripts_grows:
  "log_grows w (world_of (createManagementScripts h config project w))"
  unfolding createManagementScripts_def logger_defs host_defs
  by (intro grows_intros | simp)+

lemma performFinalChecks_grows: "log_grows w (world_of (performFinalChecks h config project w))"
  by (simp add: performFinalChecks_def checkClientPort_def checkServerPort_def logger_defs
        log_grows_def)

lemma runStep_grows: "log_grows w (world_of (runStep h config project x w))"
  by (cases x)
     (simp_all add: checkPrerequisites_grows buildProject_grows generateEnvironment_grows
        setupPM2_grows setupNginx_grows createManagementScripts_grows performFinalChecks_grows)

lemma runSteps_grows: "log_grows w (world_of (snd (runSteps h config project xs w)))"
proof (induction xs arbitrary: w)
  case Nil
  show ?case by simp
next
  case (Cons x xs)
  show ?case
  proof (cases "runStep h config project x w")
    case (Failed e w1)
    with runStep_grows [of w h config project x] show ?thesis by simp
  next
    case (Done w1)
    with runStep_grows [of w h config project x] Cons [of w1] show ?thesis
      by (auto intro: log_grows_trans)
  qed
qed

section \<open>Facts about the pipeline\<close>

lemma deploy_as_steps:
  "deploy h config project w =
     (case snd (runSteps h config project (stepList config) (started config w)) of
        Failed e w' \<Rightarrow> Failed e (logger_error (''Deployment failed: '' @ e) w')
      | Done w' \<Rightarrow> Done (finished config project w'))"
  by (cases "nginxConfig config")
     (simp_all add: deploy_def stepList_def started_def finished_def split: outcome.splits)

lemma setupNginx_catches:
  "setupNginx h config project w =
     (case andThen (Nginx_install h (logger_step ''Setting up Nginx...'' w))
             (Nginx_generate h config project) of
        Failed e w1 \<Rightarrow> Done (logger_warning (''Nginx setup requires manual intervention: '' @ e) w1)
      | Done w1 \<Rightarrow> Done w1)"
  by (simp add: setupNginx_def split: outcome.splits)

lemma setupNginx_never_fails: "\<exists>w'. setupNginx h config project w = Done w'"
  by (simp add: setupNginx_catches split: outcome.splits)

lemma runSteps_append:
  "snd (runSteps h config project (xs @ ys) w) =
     (case snd (runSteps h config project xs w) of
        Failed e w' \<Rightarrow> Failed e w'
      | Done w' \<Rightarrow> snd (runSteps h config project ys w'))"
  by (induction xs arbitrary: w) (simp_all split: outcome.splits)

lemma runSteps_after_Done:
  "runStep h config project x w = Done w1 \<Longrightarrow>
   snd (runSteps h config project (x # xs) w) = snd (runSteps h config project xs w1)"
  by simp

lemma runSteps_entered:
  "(case snd (runSteps h config project xs w) of
      Done w' \<Rightarrow> fst (runSteps h config project xs w) = xs
    | Failed e w' \<Rightarrow>
        (\<exists>k<length xs. fst (runSteps h config project xs w) = take (Suc k) xs \<and>
           xs ! k \<noteq> SetupProxy \<and>
           (\<exists>w1. runStep h config project (xs ! k) w1 = Failed e w')))"
proof (induction xs arbitrary: w)
  case Nil
  show ?case by simp
next
  case (Cons x xs)
  show ?case
  proof (cases "runStep h config project x w")
    case (Failed e w1)
    then have "x \<noteq> SetupProxy"
      using setupNginx_never_fails [of h config project w] by auto
    with Failed show ?thesis
      by (auto intro!: exI [of _ 0])
  next
    case (Done w1)
    show ?thesis
    proof (cases "snd (runSteps h config project xs w1)")
      case (Failed e w2)
      with Cons [of w1] obtain k where k: "k < length xs"
        "fst (runSteps h config project xs w1) = take (Suc k) xs"
        "xs ! k \<noteq> SetupProxy"
        "\<exists>w0. runStep h config project (xs ! k) w0 = Failed e w2"
        by auto
      with Done Failed show ?thesis
        by (auto intro!: exI [of _ "Suc k"])
    next
      case inner: (Done w2)
      with Cons [of w1] Done show ?thesis by simp
    qed
  qed
qed

subsection \<open>When everything else succeeds\<close>

lemma others_succeedD:
  assumes "others_succeed h project"
  shows "which_ok h w ''node''"
    and "which_ok h w (NeexProject.packageManager project)"
    and "c \<noteq> (''pm2'', [''startup''], None) \<Longrightarrow>
         c \<noteq> (''pm2'', [''delete'', ''all''], Some (rootPath project)) \<Longrightarrow> exec_error h w c = None"
    and "write_error h w (rootPath project @ ''/.env'') = None"
    and "write_error h w (rootPath project @ ''/ecosystem.config.js'') = None"
    and "write_error h w (rootPath project @ ''/status.sh'') = None"
    and "write_error h w (rootPath project @ ''/restart.sh'') = None"
  using assms unfolding others_succeed_def by blast+

lemma execa_ok:
  "exec_error h w (command, as, dir) = None \<Longrightarrow>
   execa h command as dir w = Done (w\<lparr>commands := commands w @ [(command, as, dir)]\<rparr>)"
  by (simp add: execa_def)

lemma writeFile_ok:
  "write_error h w filePath = None \<Longrightarrow>
   writeFile h filePath content w = Done (w\<lparr>files := (files w)(filePath \<mapsto> content)\<rparr>)"
  by (simp add: writeFile_def)

lemma checkPrerequisites_ok:
  "others_succeed h project \<Longrightarrow> \<exists>w'. checkPrerequisites h project w = Done w'"
  by (simp add: checkPrerequisites_def checkCommand_def others_succeedD)

lemma buildProject_ok:
  "others_succeed h project \<Longrightarrow> \<exists>w'. buildProject h project w = Done w'"
  by (simp add: buildProject_def executeCommand_def execa_ok others_succeedD)

lemma generateEnvironment_ok:
  "others_succeed h project \<Longrightarrow> \<exists>w'. generateEnvironment h config project w = Done w'"
  by (simp add: generateEnvironment_def writeFile_ok others_succeedD)

lemma PM2_install_ok:
  "others_succeed h project \<Longrightarrow> \<exists>w'. PM2_install h w = Done w'"
  by (simp add: PM2_install_def installPackage_def execa_ok others_succeedD)

lemma PM2_generate_ok:
  "others_succeed h project \<Longrightarrow> \<exists>w'. PM2_generate h config project w = Done w'"
  by (simp add: PM2_generate_def writeFile_ok others_succeedD)

lemma PM2_start_ok:
  assumes "others_succeed h project"
  shows "\<exists>w'. PM2_start h config project w = Done w'"
proof -
  obtain w2 where 2:
    "executeCommand h ''pm2'' [''start'', ''ecosystem.config.js''] (Some (rootPath project))
       (ignoreError
          (executeCommand h ''pm2'' [''delete'', ''all''] (Some (rootPath project))
             (logger_step ''Starting PM2 applications...'' w))) = Done w2"
    by (simp add: executeCommand_def execa_ok others_succeedD [OF assms])
  obtain w3 where 3: "executeCommand h ''pm2'' [''save''] None w2 = Done w3"
    by (simp add: executeCommand_def execa_ok others_succeedD [OF assms])
  have "\<exists>w4.
    (if autoStart config then
        tryCatch
          (andThen (executeCommand h ''pm2'' [''startup''] None w3)
             (\<lambda>w. Done (logger_success ''PM2 auto-startup configured'' w)))
          (\<lambda>e w. Done (logger_warning
             ''Could not configure PM2 auto-startup. You may need to run this manually with sudo.'' w))
      else Done w3) = Done w4"
    by (cases "execa h ''pm2'' [''startup''] None w3") (simp_all add: executeCommand_def)
  then obtain w4 where 4:
    "(if autoStart config then
        tryCatch
          (andThen (executeCommand h ''pm2'' [''startup''] None w3)
             (\<lambda>w. Done (logger_success ''PM2 auto-startup configured'' w)))
          (\<lambda>e w. Done (logger_warning
             ''Could not configure PM2 auto-startup. You may need to run this manually with sudo.'' w))
      else Done w3) = Done w4"
    by blast
  show ?thesis
    unfolding PM2_start_def by (simp only: 2 3 4 andThen_simps tryCatch_simps) blast
qed

lemma setupPM2_ok:
  assumes "others_succeed h project"
  shows "\<exists>w'. setupPM2 h config project w = Done w'"
proof -
  obtain w1 where 1: "PM2_install h (logger_step ''Setting up PM2...'' w) = Done w1"
    using PM2_install_ok [OF assms] by blast
  obtain w2 where 2: "PM2_generate h config project w1 = Done w2"
    using PM2_generate_ok [OF assms] by blast
  obtain w3 where 3: "PM2_start h config project w2 = Done w3"
    using PM2_start_ok [OF assms] by blast
  from 1 2 3 show ?thesis by (simp add: setupPM2_def)
qed

lemma createManagementScripts_ok:
  "others_succeed h project \<Longrightarrow> \<exists>w'. createManagementScripts h config project w = Done w'"
  by (simp add: createManagementScripts_def executeCommand_def writeFile_ok execa_ok others_succeedD)

lemma runStep_ok:
  "others_succeed h project \<Longrightarrow> \<exists>w'. runStep h config project x w = Done w'"
  by (cases x)
     (simp_all add: checkPrerequisites_ok buildProject_ok generateEnvironment_ok setupPM2_ok
        setupNginx_never_fails createManagementScripts_ok performFinalChecks_def)

lemma runSteps_ok:
  assumes "others_succeed h project"
  shows "\<exists>w'. snd (runSteps h config project xs w) = Done w'"
proof (induction xs arbitrary: w)
  case Nil
  show ?case by simp
next
  case (Cons x xs)
  obtain w1 where "runStep h config project x w = Done w1"
    using runStep_ok [OF assms] by blast
  with Cons [of w1] show ?case by simp
qed

lemma deploy_ok:
  assumes "others_succeed h project"
  shows "\<exists>w'. snd (runSteps h config project (stepList config) (started config w)) = Done w' \<and>
               deploy h config project w = Done (finished config project w')"
proof -
  obtain w' where "snd (runSteps h config project (stepList config) (started config w)) = Done w'"
    using runSteps_ok [OF assms] by blast
  then show ?thesis by (simp add: deploy_as_steps)
qed

lemma finished_grows: "log_grows w (finished config project w)"
  by (simp add: finished_def printPostDeploymentInfo_def fold_console_log logger_success_def
        log_grows_def)

section \<open>The example hosts\<close>

lemma typical_host_others_succeed: "others_succeed typical_host blog_project"
  by (simp add: others_succeed_def typical_host_def blog_project_def)

lemma no_nginx_host_others_succeed: "others_succeed no_nginx_host blog_project"
  by (simp add: others_succeed_def no_nginx_host_def typical_host_def blog_project_def)

lemma no_sudo_host_others_succeed: "others_succeed no_sudo_host blog_project"
  by (simp add: others_succeed_def no_sudo_host_def typical_host_def blog_project_def)

lemmas run_defs =
  deploy_def checkPrerequisites_def buildProject_def generateEnvironment_def setupPM2_def
  setupNginx_def createManagementScripts_def performFinalChecks_def checkClientPort_def
  checkServerPort_def printPostDeploymentInfo_def PM2_install_def PM2_generate_def PM2_start_def
  Nginx_install_def Nginx_generate_def getConfigPath_def getOS_def
  executeCommand_def installPackage_def checkCommand_def execa_def writeFile_def
  isPortAvailable_def logger_defs emit_def

lemma map_fst_Pair: "map (fst \<circ> Pair l) xs = replicate (length xs) l"
  by (induction xs) simp_all

lemma no_sudo_run_levels:
  "map fst (printed (world_of (deploy no_sudo_host blog_config blog_project empty_world))) =
     [Info, Step, Success, Step, Spinner, Spinner, SpinnerSucceed, Success, Success, Warning,
      Step, Success, Success, Step, Warning, Success, Step, Success, Success, Info, Step, Success,
      Step, Success, Success, Success] @
     replicate (length (postDeploymentInfo blog_config blog_project)) Console"
  by (simp add: run_defs no_sudo_host_def typical_host_def blog_config_def blog_project_def
        empty_world_def fold_emit_Console map_fst_Pair del: fold_simps)

lemma no_sudo_run_succeeds:
  "succeeded (deploy no_sudo_host blog_config blog_project empty_world)"
  using deploy_ok [OF no_sudo_host_others_succeed, where config = blog_config and w = empty_world]
  by (auto simp: succeeded_def)

lemma count_list_replicate_other: "x \<noteq> y \<Longrightarrow> count_list (replicate n x) y = 0"
  by (induction n) simp_all

section \<open>The order of the steps and the failure policy\<close>

text \<open>
  C1. \<open>deploy\<close> is the run of the fixed step list: CheckPrerequisites, Build,
  MaterializeEnvironment, SetupSupervisor, SetupProxy (in the list only when
  \<open>nginxConfig\<close> is set), GenerateManagementScripts, VerifyDeployment. A run that ends
  with \<open>Done\<close> has entered every step of the list, in order, and \<open>deploy\<close> then prints
  the report and returns. A run that fails has entered the steps up to the failing one and
  no step after it, the failing step is not SetupProxy, and \<open>deploy\<close> fails with that
  step's error from the world that step left. SetupProxy itself never fails: an error of
  the proxy controller becomes a warning and the step returns.
\<close>

theorem deploy_follows_the_step_list:
  "deploy h config project w =
     (case snd (runSteps h config project (stepList config) (started config w)) of
        Failed e w' \<Rightarrow> Failed e (logger_error (''Deployment failed: '' @ e) w')
      | Done w' \<Rightarrow> Done (finished config project w')) \<and>
   stepList config =
     (if nginxConfig config
      then [CheckPrerequisites, Build, MaterializeEnvironment, SetupSupervisor, SetupProxy,
            GenerateManagementScripts, VerifyDeployment]
      else [CheckPrerequisites, Build, MaterializeEnvironment, SetupSupervisor,
            GenerateManagementScripts, VerifyDeployment]) \<and>
   (case snd (runSteps h config project (stepList config) w0) of
      Done w' \<Rightarrow> fst (runSteps h config project (stepList config) w0) = stepList config
    | Failed e w' \<Rightarrow>
        (\<exists>k<length (stepList config).
           fst (runSteps h config project (stepList config) w0) = take (Suc k) (stepList config) \<and>
           stepList config ! k \<noteq> SetupProxy \<and>
           (\<exists>w1. runStep h config project (stepList config ! k) w1 = Failed e w'))) \<and>
   setupNginx h config project w0 =
     (case andThen (Nginx_install h (logger_step ''Setting up Nginx...'' w0))
             (Nginx_generate h config project) of
        Failed e w1 \<Rightarrow> Done (logger_warning (''Nginx setup requires manual intervention: '' @ e) w1)
      | Done w1 \<Rightarrow> Done w1)"
proof (intro conjI)
  show "deploy h config project w =
     (case snd (runSteps h config project (stepList config) (started config w)) of
        Failed e w' \<Rightarrow> Failed e (logger_error (''Deployment failed: '' @ e) w')
      | Done w' \<Rightarrow> Done (finished config project w'))"
    by (rule deploy_as_steps)
  show "stepList config =
     (if nginxConfig config
      then [CheckPrerequisites, Build, MaterializeEnvironment, SetupSupervisor, SetupProxy,
            GenerateManagementScripts, VerifyDeployment]
      else [CheckPrerequisites, Build, MaterializeEnvironment, SetupSupervisor,
            GenerateManagementScripts, VerifyDeployment])"
    by (simp add: stepList_def)
  show "case snd (runSteps h config project (stepList config) w0) of
      Done w' \<Rightarrow> fst (runSteps h config project (stepList config) w0) = stepList config
    | Failed e w' \<Rightarrow>
        (\<exists>k<length (stepList config).
           fst (runSteps h config project (stepList config) w0) = take (Suc k) (stepList config) \<and>
           stepList config ! k \<noteq> SetupProxy \<and>
           (\<exists>w1. runStep h config project (stepList config ! k) w1 = Failed e w'))"
    by (rule runSteps_entered)
  show "setupNginx h config project w0 =
     (case andThen (Nginx_install h (logger_step ''Setting up Nginx...'' w0))
             (Nginx_generate h config project) of
        Failed e w1 \<Rightarrow> Done (logger_warning (''Nginx setup requires manual intervention: '' @ e) w1)
      | Done w1 \<Rightarrow> Done w1)"
    by (rule setupNginx_catches)
qed

text \<open>
  On the host without nginx the run of the \<open>blog\<close> scenario enters all seven steps and
  \<open>deploy\<close> returns. On the host without node it enters the first step only and
  \<open>deploy\<close> fails with that step's error.
\<close>

theorem deploy_follows_the_step_list_witness:
  "fst (runSteps no_nginx_host blog_config blog_project (stepList blog_config)
          (started blog_config empty_world)) =
     [CheckPrerequisites, Build, MaterializeEnvironment, SetupSupervisor, SetupProxy,
      GenerateManagementScripts, VerifyDeployment] \<and>
   succeeded (deploy no_nginx_host blog_config blog_project empty_world) \<and>
   fst (runSteps bare_host blog_config blog_project (stepList blog_config)
          (started blog_config empty_world)) = [CheckPrerequisites] \<and>
   deploy bare_host blog_config blog_project empty_world =
     Failed ''Node.js is not installed''
       (logger_error ''Deployment failed: Node.js is not installed''
          (logger_step ''Checking prerequisites...'' (started blog_config empty_world)))"
proof -
  obtain w' where run:
    "snd (runSteps no_nginx_host blog_config blog_project (stepList blog_config)
            (started blog_config empty_world)) = Done w'"
    using deploy_ok [OF no_nginx_host_others_succeed] by blast
  have n: "nginxConfig blog_config"
    by (simp add: blog_config_def)
  note t = deploy_follows_the_step_list
    [of no_nginx_host blog_config blog_project empty_world "started blog_config empty_world"]
  have d: "deploy no_nginx_host blog_config blog_project empty_world =
      Done (finished blog_config blog_project w')"
    using t [THEN conjunct1] by (simp only: run outcome.case)
  have l: "stepList blog_config =
      [CheckPrerequisites, Build, MaterializeEnvironment, SetupSupervisor, SetupProxy,
       GenerateManagementScripts, VerifyDeployment]"
    using t [THEN conjunct2, THEN conjunct1] n by (simp only: if_True)
  have e: "fst (runSteps no_nginx_host blog_config blog_project (stepList blog_config)
      (started blog_config empty_world)) = stepList blog_config"
    using t [THEN conjunct2, THEN conjunct2, THEN conjunct1] by (simp only: run outcome.case)
  have c: "checkPrerequisites bare_host blog_project (started blog_config empty_world) =
      Failed ''Node.js is not installed''
        (logger_step ''Checking prerequisites...'' (started blog_config empty_world))"
    by (simp add: checkPrerequisites_def checkCommand_def bare_host_def)
  have b: "runSteps bare_host blog_config blog_project (stepList blog_config)
      (started blog_config empty_world) =
      ([CheckPrerequisites],
       Failed ''Node.js is not installed''
         (logger_step ''Checking prerequisites...'' (started blog_config empty_world)))"
    by (simp add: l c)
  note u = deploy_follows_the_step_list
    [of bare_host blog_config blog_project empty_world "started blog_config empty_world"]
  have f: "deploy bare_host blog_config blog_project empty_world =
     Failed ''Node.js is not installed''
       (logger_error ''Deployment failed: Node.js is not installed''
          (logger_step ''Checking prerequisites...'' (started blog_config empty_world)))"
    using u [THEN conjunct1] by (simp add: b)
  show ?thesis
    using d e l b f by (simp only: succeeded_def outcome.case simp_thms fst_conv)
qed

section \<open>Entries of the manifest and of the routing document\<close>

lemma apps_names:
  "map name (ecosystemApps config project) =
     (if hasClient project then [projectName config @ ''-client''] else []) @
     (if hasServer project then [projectName config @ ''-server''] else [])"
  by (simp add: ecosystemApps_def)

lemma apps_ports:
  "map (\<lambda>a. PORT (env a)) (ecosystemApps config project) =
     (if hasClient project then [clientPort config] else []) @
     (if hasServer project then [serverPort config] else [])"
  by (simp add: ecosystemApps_def)

lemma disabled_client_has_no_influence:
  assumes "\<not> hasClient project"
  shows "generateEcosystemConfig (config\<lparr>clientPort := x\<rparr>) project =
           generateEcosystemConfig config project"
    and "generateNginxConfig (config\<lparr>clientPort := x\<rparr>) project =
           generateNginxConfig config project"
  using assms
  by (simp_all add: generateEcosystemConfig_def ecosystemApps_def nginx_defs)

lemma disabled_server_has_no_influence:
  assumes "\<not> hasServer project"
  shows "generateEcosystemConfig (config\<lparr>serverPort := x\<rparr>) project =
           generateEcosystemConfig config project"
    and "generateNginxConfig (config\<lparr>serverPort := x\<rparr>) project =
           generateNginxConfig config project"
  using assms
  by (simp_all add: generateEcosystemConfig_def ecosystemApps_def nginx_defs)

text \<open>
  C2. The \<open>apps\<close> array of the manifest has one entry per enabled subsystem, in the order
  client, server, named \<open><project>-client\<close> and \<open><project>-server\<close> and with that
  subsystem's port as \<open>env.PORT\<close>; the manifest text has one \<open>"name"\<close> line and one
  \<open>"PORT"\<close> line for each of these entries and no other. When the domain has no line feed
  in it, the lines of the routing document that open an \<open>upstream\<close> or a \<open>location\<close>
  block are those of the enabled subsystems, followed by the static-files rule, which is
  always there; its \<open>server localhost:<port>\<close> lines and its \<open>proxy_pass\<close> lines are
  those of the enabled subsystems too. A disabled subsystem adds nothing: neither artifact
  depends on its port.
\<close>

theorem artifacts_hold_enabled_subsystems_only:
  \<open>map name (ecosystemApps config project) =
     (if hasClient project then [projectName config @ ''-client''] else []) @
     (if hasServer project then [projectName config @ ''-server''] else []) \<and>
   map (\<lambda>a. PORT (env a)) (ecosystemApps config project) =
     (if hasClient project then [clientPort config] else []) @
     (if hasServer project then [serverPort config] else []) \<and>
   filter (starts_with ''    "name": '') (doc_lines (generateEcosystemConfig config project)) =
     (if hasClient project
      then [''    "name": '' @ QuoteJSONString (projectName config @ ''-client'') @ '','']
      else []) @
     (if hasServer project
      then [''    "name": '' @ QuoteJSONString (projectName config @ ''-server'') @ '','']
      else []) \<and>
   filter (starts_with ''      "PORT": '') (doc_lines (generateEcosystemConfig config project)) =
     (if hasClient project then [''      "PORT": '' @ show_nat (clientPort config)] else []) @
     (if hasServer project then [''      "PORT": '' @ show_nat (serverPort config)] else []) \<and>
   (CHR 0x0A \<notin> set (domain config) \<longrightarrow>
    filter is_block_head (doc_lines (generateNginxConfig config project)) =
     (if hasClient project then [''    upstream client_backend {''] else []) @
     (if hasServer project then [''    upstream server_backend {''] else []) @
     (if hasServer project then [''    location /api/ {''] else []) @
     (if hasClient project then [''    location / {''] else []) @
     [''    location ~* '' @ [CHR 0x5C] @ ''.(js|css|png|jpg|jpeg|gif|ico|svg|woff|woff2|ttf|eot)$ {''] \<and>
    filter (starts_with ''        server localhost:'') (doc_lines (generateNginxConfig config project)) =
     (if hasClient project then [''        server localhost:'' @ show_nat (clientPort config) @ '';''] else []) @
     (if hasServer project then [''        server localhost:'' @ show_nat (serverPort config) @ '';''] else []) \<and>
    filter (starts_with ''        proxy_pass '') (doc_lines (generateNginxConfig config project)) =
     (if hasServer project then [''        proxy_pass http://server_backend/;''] else []) @
     (if hasClient project then [''        proxy_pass http://client_backend;''] else []) @
     (if hasClient project then [''        proxy_pass http://client_backend;''] else [])) \<and>
   (\<not> hasClient project \<longrightarrow>
      generateEcosystemConfig (config\<lparr>clientPort := x\<rparr>) project =
        generateEcosystemConfig config project \<and>
      generateNginxConfig (config\<lparr>clientPort := x\<rparr>) project =
        generateNginxConfig config project) \<and>
   (\<not> hasServer project \<longrightarrow>
      generateEcosystemConfig (config\<lparr>serverPort := x\<rparr>) project =
        generateEcosystemConfig config project \<and>
      generateNginxConfig (config\<lparr>serverPort := x\<rparr>) project =
        generateNginxConfig config project)\<close>
  using apps_names [of config project] apps_ports [of config project]
    manifest_name_lines [of config project] manifest_port_lines [of config project]
    nginx_block_heads [of config project] nginx_upstream_server_lines [of config project]
    nginx_proxy_pass_lines [of config project]
    disabled_client_has_no_influence [where project = project and config = config and x = x]
    disabled_server_has_no_influence [where project = project and config = config and x = x]
  by blast

text \<open>
  The two scenarios of the specification: with both subsystems the routing document opens
  four blocks and the static-files rule; without the client it opens the two blocks of the
  server and the static-files rule, the manifest has the one entry \<open>blog-server\<close>, and
  the client port has no influence on either text.
\<close>

theorem artifacts_hold_enabled_subsystems_only_witness:
  \<open>CHR 0x0A \<notin> set (domain blog_config) \<and>
   \<not> hasClient api_project \<and>
   \<not> hasServer (api_project\<lparr>hasServer := False\<rparr>) \<and>
   filter is_block_head (doc_lines (generateNginxConfig blog_config blog_project)) =
     [''    upstream client_backend {'', ''    upstream server_backend {'',
      ''    location /api/ {'', ''    location / {'',
      ''    location ~* '' @ [CHR 0x5C] @ ''.(js|css|png|jpg|jpeg|gif|ico|svg|woff|woff2|ttf|eot)$ {''] \<and>
   filter is_block_head (doc_lines (generateNginxConfig blog_config api_project)) =
     [''    upstream server_backend {'', ''    location /api/ {'',
      ''    location ~* '' @ [CHR 0x5C] @ ''.(js|css|png|jpg|jpeg|gif|ico|svg|woff|woff2|ttf|eot)$ {''] \<and>
   map name (ecosystemApps blog_config api_project) = [''blog-server''] \<and>
   generateEcosystemConfig (blog_config\<lparr>clientPort := 1\<rparr>) api_project =
     generateEcosystemConfig blog_config api_project \<and>
   generateNginxConfig (blog_config\<lparr>clientPort := 1\<rparr>) api_project =
     generateNginxConfig blog_config api_project \<and>
   generateNginxConfig (blog_config\<lparr>serverPort := 1\<rparr>) (api_project\<lparr>hasServer := False\<rparr>) =
     generateNginxConfig blog_config (api_project\<lparr>hasServer := False\<rparr>)\<close>
proof -
  have h: "CHR 0x0A \<notin> set (domain blog_config)"
    by (simp add: blog_config_def)
  have b: "hasClient blog_project" "hasServer blog_project"
    by (simp_all add: blog_project_def)
  have a: "\<not> hasClient api_project" "hasServer api_project"
    by (simp_all add: api_project_def blog_project_def)
  have n: "\<not> hasServer (api_project\<lparr>hasServer := False\<rparr>)"
    by simp
  have p: "projectName blog_config = ''blog''"
    by (simp add: blog_config_def)
  note t1 = artifacts_hold_enabled_subsystems_only
    [where config = blog_config and project = blog_project and x = 1]
  note t2 = artifacts_hold_enabled_subsystems_only
    [where config = blog_config and project = api_project and x = 1]
  note t3 = artifacts_hold_enabled_subsystems_only
    [where config = blog_config and project = "api_project\<lparr>hasServer := False\<rparr>" and x = 1]
  from t1 h have "filter is_block_head (doc_lines (generateNginxConfig blog_config blog_project)) =
     (if hasClient blog_project then [''    upstream client_backend {''] else []) @
     (if hasServer blog_project then [''    upstream server_backend {''] else []) @
     (if hasServer blog_project then [''    location /api/ {''] else []) @
     (if hasClient blog_project then [''    location / {''] else []) @
     [''    location ~* '' @ [CHR 0x5C] @ ''.(js|css|png|jpg|jpeg|gif|ico|svg|woff|woff2|ttf|eot)$ {'']"
    by blast
  with b have 1: "filter is_block_head (doc_lines (generateNginxConfig blog_config blog_project)) =
     [''    upstream client_backend {'', ''    upstream server_backend {'',
      ''    location /api/ {'', ''    location / {'',
      ''    location ~* '' @ [CHR 0x5C] @ ''.(js|css|png|jpg|jpeg|gif|ico|svg|woff|woff2|ttf|eot)$ {'']"
    by simp
  from t2 h have "filter is_block_head (doc_lines (generateNginxConfig blog_config api_project)) =
     (if hasClient api_project then [''    upstream client_backend {''] else []) @
     (if hasServer api_project then [''    upstream server_backend {''] else []) @
     (if hasServer api_project then [''    location /api/ {''] else []) @
     (if hasClient api_project then [''    location / {''] else []) @
     [''    location ~* '' @ [CHR 0x5C] @ ''.(js|css|png|jpg|jpeg|gif|ico|svg|woff|woff2|ttf|eot)$ {'']"
    by blast
  with a have 2: "filter is_block_head (doc_lines (generateNginxConfig blog_config api_project)) =
     [''    upstream server_backend {'', ''    location /api/ {'',
      ''    location ~* '' @ [CHR 0x5C] @ ''.(js|css|png|jpg|jpeg|gif|ico|svg|woff|woff2|ttf|eot)$ {'']"
    by simp
  from t2 have "map name (ecosystemApps blog_config api_project) =
     (if hasClient api_project then [projectName blog_config @ ''-client''] else []) @
     (if hasServer api_project then [projectName blog_config @ ''-server''] else [])"
    by blast
  with a p have 3: "map name (ecosystemApps blog_config api_project) = [''blog-server'']"
    by simp
  from t2 a have 4: "generateEcosystemConfig (blog_config\<lparr>clientPort := 1\<rparr>) api_project =
        generateEcosystemConfig blog_config api_project"
    "generateNginxConfig (blog_config\<lparr>clientPort := 1\<rparr>) api_project =
        generateNginxConfig blog_config api_project"
    by blast+
  from t3 n have 5:
    "generateNginxConfig (blog_config\<lparr>serverPort := 1\<rparr>) (api_project\<lparr>hasServer := False\<rparr>) =
     generateNginxConfig blog_config (api_project\<lparr>hasServer := False\<rparr>)"
    by blast
  from h a(1) n 1 2 3 4 5 show ?thesis
    by blast
qed

section \<open>Order of the location rules\<close>

lemma occurs_here: "\<exists>pre post. s1 @ s2 @ rest = pre @ s1 @ s2 @ post"
  by (intro exI [of _ "[]"] exI [of _ rest]) simp

lemma occurs_later:
  "\<exists>pre post. ys = pre @ s1 @ s2 @ post \<Longrightarrow> \<exists>pre post. xs @ ys = pre @ s1 @ s2 @ (post :: 'a list)"
proof -
  assume "\<exists>pre post. ys = pre @ s1 @ s2 @ post"
  then obtain pre post where "ys = pre @ s1 @ s2 @ post" by blast
  then have "xs @ ys = (xs @ pre) @ s1 @ s2 @ post" by simp
  then show ?thesis by blast
qed

lemma location_blocks_adjacent:
  "\<exists>pre post. generateNginxConfig config project =
     pre @ serverLocation project @ clientLocation project @ post"
  unfolding generateNginxConfig_def
  by (rule occurs_here | rule occurs_later)+

lemma serverLocation_text:
  "hasServer project \<Longrightarrow>
   serverLocation project =
     take 33 (serverLocation project) @ ''location /api/ {'' @ drop 49 (serverLocation project)"
  by (simp add: serverLocation_def)

lemma clientLocation_text:
  "hasClient project \<Longrightarrow>
   clientLocation project =
     take 30 (clientLocation project) @ ''location / {'' @ drop 42 (clientLocation project)"
  by (simp add: clientLocation_def)

lemma location_lines_are_block_heads:
  "(\<lambda>l. is_block_head l \<and> (l = ''    location /api/ {'' \<or> l = ''    location / {'')) =
   (\<lambda>l. l = ''    location /api/ {'' \<or> l = ''    location / {'')"
  by (auto simp: is_block_head_def)

lemma location_lines_in_order:
  assumes "hasClient project" and "hasServer project" and "CHR 0x0A \<notin> set (domain config)"
  shows "filter (\<lambda>l. l = ''    location /api/ {'' \<or> l = ''    location / {'')
           (doc_lines (generateNginxConfig config project)) =
         [''    location /api/ {'', ''    location / {'']"
proof -
  have "filter (\<lambda>l. l = ''    location /api/ {'' \<or> l = ''    location / {'')
          (doc_lines (generateNginxConfig config project)) =
        filter (\<lambda>l. l = ''    location /api/ {'' \<or> l = ''    location / {'')
          (filter is_block_head (doc_lines (generateNginxConfig config project)))"
    by (simp only: filter_filter location_lines_are_block_heads)
  also have "\<dots> = [''    location /api/ {'', ''    location / {'']"
    using assms by (simp add: nginx_block_heads)
  finally show ?thesis .
qed

text \<open>
  C3. With both subsystems enabled, the text of the routing document has the rule
  \<open>location /api/ {\<close> of the server before the rule \<open>location / {\<close> of the client; and when
  the domain has no line feed in it, each of the two rules opens exactly one line of the
  document, the API rule first.
\<close>

theorem api_rule_precedes_client_rule:
  assumes "hasClient project" and "hasServer project"
  shows "(\<exists>pre mid post. generateNginxConfig config project =
            pre @ ''location /api/ {'' @ mid @ ''location / {'' @ post) \<and>
         (CHR 0x0A \<notin> set (domain config) \<longrightarrow>
          filter (\<lambda>l. l = ''    location /api/ {'' \<or> l = ''    location / {'')
            (doc_lines (generateNginxConfig config project)) =
          [''    location /api/ {'', ''    location / {''])"
proof
  obtain pre post where d: "generateNginxConfig config project =
      pre @ serverLocation project @ clientLocation project @ post"
    using location_blocks_adjacent by blast
  have "generateNginxConfig config project =
      (pre @ take 33 (serverLocation project)) @ ''location /api/ {'' @
      (drop 49 (serverLocation project) @ take 30 (clientLocation project)) @ ''location / {'' @
      (drop 42 (clientLocation project) @ post)"
    by (subst d, subst serverLocation_text [OF assms(2)], subst clientLocation_text [OF assms(1)])
       (simp only: append_assoc)
  then show "\<exists>pre mid post. generateNginxConfig config project =
      pre @ ''location /api/ {'' @ mid @ ''location / {'' @ post"
    by blast
next
  show "CHR 0x0A \<notin> set (domain config) \<longrightarrow>
          filter (\<lambda>l. l = ''    location /api/ {'' \<or> l = ''    location / {'')
            (doc_lines (generateNginxConfig config project)) =
          [''    location /api/ {'', ''    location / {'']"
    using assms location_lines_in_order by blast
qed

theorem api_rule_precedes_client_rule_witness:
  "hasClient blog_project \<and> hasServer blog_project \<and> CHR 0x0A \<notin> set (domain blog_config) \<and>
   (\<exists>pre mid post. generateNginxConfig blog_config blog_project =
      pre @ ''location /api/ {'' @ mid @ ''location / {'' @ post) \<and>
   filter (\<lambda>l. l = ''    location /api/ {'' \<or> l = ''    location / {'')
     (doc_lines (generateNginxConfig blog_config blog_project)) =
   [''    location /api/ {'', ''    location / {'']"
proof -
  have c: "hasClient blog_project" and s: "hasServer blog_project"
    by (simp_all add: blog_project_def)
  have h: "CHR 0x0A \<notin> set (domain blog_config)"
    by (simp add: blog_config_def)
  from api_rule_precedes_client_rule [OF c s, of blog_config] c s h show ?thesis
    by blast
qed

section \<open>The environment file\<close>

lemma generateEnvironment_overwrites:
  assumes "\<not> which_ok h w (''test -f '' @ rootPath project @ ''/.env'')"
    and "write_error h w (rootPath project @ ''/.env'') = None"
  shows "generateEnvironment h config project w =
     Done (logger_warning ''Please update .env with your actual values''
       (logger_success ''.env file created''
          (w\<lparr>files := (files w)(rootPath project @ ''/.env'' \<mapsto> envContent config)\<rparr>)))"
  using assms by (simp add: generateEnvironment_def checkCommand_def writeFile_ok)

lemma generateEnvironment_keeps:
  assumes "which_ok h w (''test -f '' @ rootPath project @ ''/.env'')"
  shows "generateEnvironment h config project w = Done (logger_success ''.env file already exists'' w)"
  using assms by (simp add: generateEnvironment_def checkCommand_def)

text \<open>
  C4 does not hold of the code. Whether the file is kept is decided by
  \<open>checkCommand('test -f <root>/.env')\<close>, that is by \<open>which\<close> looking for a program of
  that name, and not by the file system. On a host on which \<open>which\<close> finds node, npm, pm2
  and nginx and nothing else, with the operator's \<open>/app/.env\<close> in place, the step
  succeeds and the file then holds the generated template.
\<close>

theorem existing_env_file_is_overwritten:
  \<open>files secrets_world ''/app/.env'' = Some ''API_KEY=secret\<newline>'' \<and>
   \<not> which_ok typical_host secrets_world ''test -f /app/.env'' \<and>
   succeeded (generateEnvironment typical_host blog_config blog_project secrets_world) \<and>
   files (world_of (generateEnvironment typical_host blog_config blog_project secrets_world))
     ''/app/.env'' = Some (envContent blog_config) \<and>
   envContent blog_config \<noteq> ''API_KEY=secret\<newline>''\<close>
proof -
  have r: "rootPath blog_project = ''/app''"
    by (simp add: blog_project_def)
  have n: "\<not> which_ok typical_host secrets_world (''test -f '' @ rootPath blog_project @ ''/.env'')"
    by (simp add: typical_host_def r)
  have w: "write_error typical_host secrets_world (rootPath blog_project @ ''/.env'') = None"
    by (simp add: typical_host_def)
  note g = generateEnvironment_overwrites [OF n w, of blog_config]
  have "files secrets_world ''/app/.env'' = Some ''API_KEY=secret\<newline>''"
    by (simp add: secrets_world_def)
  moreover have "\<not> which_ok typical_host secrets_world ''test -f /app/.env''"
    by (simp add: typical_host_def)
  moreover have "succeeded (generateEnvironment typical_host blog_config blog_project secrets_world)"
    by (simp add: g succeeded_def)
  moreover have "files (world_of (generateEnvironment typical_host blog_config blog_project secrets_world))
     ''/app/.env'' = Some (envContent blog_config)"
    by (simp add: g r logger_defs)
  moreover have "envContent blog_config \<noteq> ''API_KEY=secret\<newline>''"
    by (simp add: envContent_def)
  ultimately show ?thesis by blast
qed

section \<open>Failures of the proxy controller\<close>

lemma step_list_with_proxy:
  "nginxConfig config \<Longrightarrow>
   stepList config =
     [CheckPrerequisites, Build, MaterializeEnvironment, SetupSupervisor] @
     SetupProxy # [GenerateManagementScripts, VerifyDeployment]"
  by (simp add: stepList_def)

lemma Nginx_install_absent:
  "\<not> which_ok h w ''nginx'' \<Longrightarrow> \<exists>w1. Nginx_install h w = Failed ''Nginx installation required'' w1"
  by (simp add: Nginx_install_def checkCommand_def)

lemma proxy_warning_logged:
  assumes ok: "others_succeed h project"
    and n: "nginxConfig config"
    and absent: "\<forall>w0. \<not> which_ok h w0 ''nginx''"
  shows "\<exists>w'. deploy h config project w = Done w' \<and>
     (Warning, ''Nginx setup requires manual intervention: Nginx installation required'')
       \<in> set (printed w')"
proof -
  obtain w4 where 4:
    "snd (runSteps h config project
       [CheckPrerequisites, Build, MaterializeEnvironment, SetupSupervisor] (started config w)) = Done w4"
    using runSteps_ok [OF ok] by blast
  obtain w1 where 1:
    "Nginx_install h (logger_step ''Setting up Nginx...'' w4) = Failed ''Nginx installation required'' w1"
    using Nginx_install_absent absent by blast
  define w5 where
    "w5 = logger_warning ''Nginx setup requires manual intervention: Nginx installation required'' w1"
  have 5: "setupNginx h config project w4 = Done w5"
    by (simp add: setupNginx_catches 1 w5_def)
  obtain w7 where 7:
    "snd (runSteps h config project [GenerateManagementScripts, VerifyDeployment] w5) = Done w7"
    using runSteps_ok [OF ok] by blast
  have "log_grows w5 w7"
    using runSteps_grows [of w5 h config project "[GenerateManagementScripts, VerifyDeployment]"] 7
    by simp
  moreover have "(Warning, ''Nginx setup requires manual intervention: Nginx installation required'')
      \<in> set (printed w5)"
    by (simp add: w5_def logger_warning_def)
  ultimately have m: "(Warning, ''Nginx setup requires manual intervention: Nginx installation required'')
      \<in> set (printed (finished config project w7))"
    using finished_grows log_grows_mem by blast
  have "snd (runSteps h config project (stepList config) (started config w)) =
      snd (runSteps h config project
        (SetupProxy # [GenerateManagementScripts, VerifyDeployment]) w4)"
    by (simp only: step_list_with_proxy [OF n] runSteps_append 4 outcome.case)
  also have "\<dots> = snd (runSteps h config project [GenerateManagementScripts, VerifyDeployment] w5)"
    by (rule runSteps_after_Done) (simp add: 5)
  also have "\<dots> = Done w7"
    by (rule 7)
  finally have "snd (runSteps h config project (stepList config) (started config w)) = Done w7" .
  then have "deploy h config project w = Done (finished config project w7)"
    by (simp add: deploy_as_steps)
  with m show ?thesis by blast
qed

lemma runSteps_after_proxy:
  "\<exists>w'. setupNginx h config project w = Done w' \<and>
     runSteps h config project (SetupProxy # rest) w =
       (SetupProxy # fst (runSteps h config project rest w'), snd (runSteps h config project rest w'))"
proof -
  obtain w' where "setupNginx h config project w = Done w'"
    using setupNginx_never_fails by blast
  then show ?thesis by simp
qed

lemma proxy_run_succeeds:
  assumes ok: "others_succeed h project"
  shows "\<exists>w'. snd (runSteps h config project (stepList config) (started config w)) = Done w' \<and>
     deploy h config project w = Done (finished config project w') \<and>
     (nginxConfig config \<and> (\<forall>w0. \<not> which_ok h w0 ''nginx'') \<longrightarrow>
        (Warning, ''Nginx setup requires manual intervention: Nginx installation required'')
          \<in> set (printed (finished config project w')))"
proof -
  obtain w' where run: "snd (runSteps h config project (stepList config) (started config w)) = Done w'"
    and d: "deploy h config project w = Done (finished config project w')"
    using deploy_ok [OF ok] by blast
  show ?thesis
  proof (cases "nginxConfig config \<and> (\<forall>w0. \<not> which_ok h w0 ''nginx'')")
    case True
    then obtain w2 where "deploy h config project w = Done w2"
      "(Warning, ''Nginx setup requires manual intervention: Nginx installation required'')
        \<in> set (printed w2)"
      using proxy_warning_logged [OF ok] by blast
    with d have "(Warning, ''Nginx setup requires manual intervention: Nginx installation required'')
        \<in> set (printed (finished config project w'))"
      by simp
    with run d show ?thesis by blast
  next
    case False
    with run d show ?thesis by blast
  qed
qed

text \<open>
  C5. \<open>deploy\<close> is the run of the step list, and in that run SetupProxy never fails:
  whatever error the proxy controller (\<open>install\<close>, then \<open>generate\<close>) raises is logged as
  a warning, the step returns, and the run goes on with the remaining steps from the world
  the step left. With the binary absent \<open>install\<close> raises
  \<open>Nginx installation required\<close>. So, when the other steps succeed, the run enters every
  step of the list and ends with \<open>Done\<close>, and \<open>deploy\<close> returns the world of that run
  with the report printed, however the proxy controller behaves; with the proxy configured
  and the binary absent the log of that world holds the warning.
\<close>

theorem proxy_failure_is_only_a_warning:
  "deploy h config project w =
     (case snd (runSteps h config project (stepList config) (started config w)) of
        Failed e w' \<Rightarrow> Failed e (logger_error (''Deployment failed: '' @ e) w')
      | Done w' \<Rightarrow> Done (finished config project w')) \<and>
   (\<exists>w'. setupNginx h config project w = Done w' \<and>
      (case andThen (Nginx_install h (logger_step ''Setting up Nginx...'' w))
              (Nginx_generate h config project) of
         Failed e w1 \<Rightarrow> w' = logger_warning (''Nginx setup requires manual intervention: '' @ e) w1
       | Done w1 \<Rightarrow> w' = w1) \<and>
      runSteps h config project (SetupProxy # rest) w =
        (SetupProxy # fst (runSteps h config project rest w'),
         snd (runSteps h config project rest w'))) \<and>
   (\<not> which_ok h (logger_step ''Setting up Nginx...'' w) ''nginx'' \<longrightarrow>
      (\<exists>w1. Nginx_install h (logger_step ''Setting up Nginx...'' w) =
         Failed ''Nginx installation required'' w1)) \<and>
   (others_succeed h project \<longrightarrow>
      fst (runSteps h config project (stepList config) (started config w)) = stepList config \<and>
      (\<exists>w'. snd (runSteps h config project (stepList config) (started config w)) = Done w' \<and>
         deploy h config project w = Done (finished config project w') \<and>
         (nginxConfig config \<and> (\<forall>w0. \<not> which_ok h w0 ''nginx'') \<longrightarrow>
            (Warning, ''Nginx setup requires manual intervention: Nginx installation required'')
              \<in> set (printed (finished config project w')))))"
proof (intro conjI impI)
  show "deploy h config project w =
     (case snd (runSteps h config project (stepList config) (started config w)) of
        Failed e w' \<Rightarrow> Failed e (logger_error (''Deployment failed: '' @ e) w')
      | Done w' \<Rightarrow> Done (finished config project w'))"
    by (rule deploy_as_steps)
next
  obtain w' where s: "setupNginx h config project w = Done w'"
    and r: "runSteps h config project (SetupProxy # rest) w =
        (SetupProxy # fst (runSteps h config project rest w'),
         snd (runSteps h config project rest w'))"
    using runSteps_after_proxy by blast
  from s have "case andThen (Nginx_install h (logger_step ''Setting up Nginx...'' w))
              (Nginx_generate h config project) of
         Failed e w1 \<Rightarrow> w' = logger_warning (''Nginx setup requires manual intervention: '' @ e) w1
       | Done w1 \<Rightarrow> w' = w1"
    by (simp add: setupNginx_catches split: outcome.splits)
  with s r show "\<exists>w'. setupNginx h config project w = Done w' \<and>
      (case andThen (Nginx_install h (logger_step ''Setting up Nginx...'' w))
              (Nginx_generate h config project) of
         Failed e w1 \<Rightarrow> w' = logger_warning (''Nginx setup requires manual intervention: '' @ e) w1
       | Done w1 \<Rightarrow> w' = w1) \<and>
      runSteps h config project (SetupProxy # rest) w =
        (SetupProxy # fst (runSteps h config project rest w'),
         snd (runSteps h config project rest w'))"
    by blast
next
  assume "\<not> which_ok h (logger_step ''Setting up Nginx...'' w) ''nginx''"
  then show "\<exists>w1. Nginx_install h (logger_step ''Setting up Nginx...'' w) =
         Failed ''Nginx installation required'' w1"
    by (rule Nginx_install_absent)
next
  assume ok: "others_succeed h project"
  then obtain w' where "snd (runSteps h config project (stepList config) (started config w)) = Done w'"
    using runSteps_ok by blast
  then show "fst (runSteps h config project (stepList config) (started config w)) = stepList config"
    using runSteps_entered [where h = h and config = config and project = project and
        xs = "stepList config" and w = "started config w"] by simp
next
  assume ok: "others_succeed h project"
  show "\<exists>w'. snd (runSteps h config project (stepList config) (started config w)) = Done w' \<and>
         deploy h config project w = Done (finished config project w') \<and>
         (nginxConfig config \<and> (\<forall>w0. \<not> which_ok h w0 ''nginx'') \<longrightarrow>
            (Warning, ''Nginx setup requires manual intervention: Nginx installation required'')
              \<in> set (printed (finished config project w')))"
    by (rule proxy_run_succeeds [OF ok])
qed

text \<open>The \<open>blog\<close> scenario on the host without nginx.\<close>

theorem proxy_failure_is_only_a_warning_witness:
  "\<not> which_ok no_nginx_host (logger_step ''Setting up Nginx...'' empty_world) ''nginx'' \<and>
   others_succeed no_nginx_host blog_project \<and>
   nginxConfig blog_config \<and>
   (\<exists>w1. Nginx_install no_nginx_host (logger_step ''Setting up Nginx...'' empty_world) =
      Failed ''Nginx installation required'' w1) \<and>
   fst (runSteps no_nginx_host blog_config blog_project (stepList blog_config)
          (started blog_config empty_world)) = stepList blog_config \<and>
   (\<exists>w'. snd (runSteps no_nginx_host blog_config blog_project (stepList blog_config)
                 (started blog_config empty_world)) = Done w' \<and>
      deploy no_nginx_host blog_config blog_project empty_world =
        Done (finished blog_config blog_project w') \<and>
      (Warning, ''Nginx setup requires manual intervention: Nginx installation required'')
        \<in> set (printed (finished blog_config blog_project w')))"
proof -
  have a: "\<forall>w0. \<not> which_ok no_nginx_host w0 ''nginx''"
    by (simp add: no_nginx_host_def typical_host_def)
  have n: "nginxConfig blog_config"
    by (simp add: blog_config_def)
  from proxy_failure_is_only_a_warning
         [where h = no_nginx_host and config = blog_config and project = blog_project and
            w = empty_world and rest = "[]"]
    a n no_nginx_host_others_succeed
  show ?thesis by blast
qed

section \<open>Failure of the autostart registration\<close>

lemma step_list_with_supervisor:
  "stepList config =
     [CheckPrerequisites, Build, MaterializeEnvironment] @
     SetupSupervisor #
     ((if nginxConfig config then [SetupProxy] else []) @ [GenerateManagementScripts, VerifyDeployment])"
  by (simp add: stepList_def)

lemma PM2_start_registration_fails:
  assumes auto: "autoStart config"
    and ok: "others_succeed h project"
    and fails: "\<forall>w0. exec_error h w0 (''pm2'', [''startup''], None) = Some e"
  shows "\<exists>w'. PM2_start h config project w = Done w' \<and>
     printed w' = printed w @
       [(Step, ''Starting PM2 applications...''),
        (Warning, ''Could not configure PM2 auto-startup. You may need to run this manually with sudo.''),
        (Success, ''PM2 applications started'')]"
proof -
  define w1 where
    "w1 = ignoreError
       (executeCommand h ''pm2'' [''delete'', ''all''] (Some (rootPath project))
          (logger_step ''Starting PM2 applications...'' w))"
  have p1: "printed w1 = printed w @ [(Step, ''Starting PM2 applications...'')]"
    by (simp add: w1_def executeCommand_def execa_def logger_step_def split: option.splits)
  define w2 where
    "w2 = w1\<lparr>commands := commands w1 @
       [(''pm2'', [''start'', ''ecosystem.config.js''], Some (rootPath project))]\<rparr>"
  define w3 where "w3 = w2\<lparr>commands := commands w2 @ [(''pm2'', [''save''], None)]\<rparr>"
  define w4 where "w4 = w3\<lparr>commands := commands w3 @ [(''pm2'', [''startup''], None)]\<rparr>"
  have 2: "executeCommand h ''pm2'' [''start'', ''ecosystem.config.js''] (Some (rootPath project)) w1 = Done w2"
    by (simp add: executeCommand_def execa_ok others_succeedD [OF ok] w2_def)
  have 3: "executeCommand h ''pm2'' [''save''] None w2 = Done w3"
    by (simp add: executeCommand_def execa_ok others_succeedD [OF ok] w3_def)
  have 4: "executeCommand h ''pm2'' [''startup''] None w3 = Failed e w4"
    using fails by (simp add: executeCommand_def execa_def w4_def)
  have "PM2_start h config project w =
      Done (logger_success ''PM2 applications started''
        (logger_warning
           ''Could not configure PM2 auto-startup. You may need to run this manually with sudo.'' w4))"
    unfolding PM2_start_def w1_def [symmetric]
    by (simp only: 2 3 4 auto andThen_simps tryCatch_simps if_True)
  moreover have "printed w4 = printed w1"
    by (simp add: w4_def w3_def w2_def)
  ultimately show ?thesis
    by (simp add: p1 logger_success_def logger_warning_def)
qed

lemma autostart_warning_logged:
  assumes auto: "autoStart config"
    and ok: "others_succeed h project"
    and fails: "\<forall>w0. exec_error h w0 (''pm2'', [''startup''], None) = Some e"
  shows "\<exists>w'. deploy h config project w = Done w' \<and>
     (Warning, ''Could not configure PM2 auto-startup. You may need to run this manually with sudo.'')
       \<in> set (printed w')"
proof -
  obtain w3 where 3:
    "snd (runSteps h config project
       [CheckPrerequisites, Build, MaterializeEnvironment] (started config w)) = Done w3"
    using runSteps_ok [OF ok] by blast
  obtain i where i: "PM2_install h (logger_step ''Setting up PM2...'' w3) = Done i"
    using PM2_install_ok [OF ok] by blast
  obtain g where g: "PM2_generate h config project i = Done g"
    using PM2_generate_ok [OF ok] by blast
  obtain w4 where s: "PM2_start h config project g = Done w4"
    and p: "printed w4 = printed g @
       [(Step, ''Starting PM2 applications...''),
        (Warning, ''Could not configure PM2 auto-startup. You may need to run this manually with sudo.''),
        (Success, ''PM2 applications started'')]"
    using PM2_start_registration_fails [OF auto ok fails] by blast
  have 4: "setupPM2 h config project w3 = Done w4"
    by (simp add: setupPM2_def i g s)
  obtain w7 where 7:
    "snd (runSteps h config project
       ((if nginxConfig config then [SetupProxy] else []) @ [GenerateManagementScripts, VerifyDeployment])
       w4) = Done w7"
    using runSteps_ok [OF ok] by blast
  have "log_grows w4 w7"
    using runSteps_grows [where w = w4 and h = h and config = config and project = project and
        xs = "(if nginxConfig config then [SetupProxy] else []) @ [GenerateManagementScripts, VerifyDeployment]"]
      7 by simp
  moreover have "(Warning,
      ''Could not configure PM2 auto-startup. You may need to run this manually with sudo.'')
      \<in> set (printed w4)"
    by (simp add: p)
  ultimately have m: "(Warning,
      ''Could not configure PM2 auto-startup. You may need to run this manually with sudo.'')
      \<in> set (printed (finished config project w7))"
    using finished_grows log_grows_mem by blast
  have "snd (runSteps h config project (stepList config) (started config w)) =
      snd (runSteps h config project
        (SetupSupervisor #
         ((if nginxConfig config then [SetupProxy] else []) @ [GenerateManagementScripts, VerifyDeployment]))
        w3)"
    by (simp only: step_list_with_supervisor runSteps_append 3 outcome.case)
  also have "\<dots> = snd (runSteps h config project
        ((if nginxConfig config then [SetupProxy] else []) @ [GenerateManagementScripts, VerifyDeployment])
        w4)"
    by (rule runSteps_after_Done) (simp add: 4)
  also have "\<dots> = Done w7"
    by (rule 7)
  finally have "snd (runSteps h config project (stepList config) (started config w)) = Done w7" .
  then have "deploy h config project w = Done (finished config project w7)"
    by (simp add: deploy_as_steps)
  with m show ?thesis by blast
qed

lemma typical_run_levels:
  "map fst (printed (world_of (deploy typical_host blog_config blog_project empty_world))) =
     [Info, Step, Success, Step, Spinner, Spinner, SpinnerSucceed, Success, Success, Warning,
      Step, Success, Success, Step, Success, Success, Step, Success, Success, Info, Step, Success,
      Step, Success, Success, Success] @
     replicate (length (postDeploymentInfo blog_config blog_project)) Console"
  by (simp add: run_defs typical_host_def blog_config_def blog_project_def
        empty_world_def fold_emit_Console map_fst_Pair del: fold_simps)

text \<open>
  With the \<open>start\<close> of the first listing the failed registration costs one warning and
  nothing else: the run on the host on which only \<open>pm2 startup\<close> fails succeeds like the
  run on the host on which nothing fails, and its log has one warning more (the other one,
  in both runs, is the notice that follows the creation of \<open>.env\<close>).
\<close>

lemma first_listing_records_one_warning:
  "succeeded (deploy typical_host blog_config blog_project empty_world) \<and>
   count_list (map fst (printed (world_of (deploy typical_host blog_config blog_project empty_world))))
     Warning = 1 \<and>
   succeeded (deploy no_sudo_host blog_config blog_project empty_world) \<and>
   count_list (map fst (printed (world_of (deploy no_sudo_host blog_config blog_project empty_world))))
     Warning = 2"
proof -
  have "succeeded (deploy typical_host blog_config blog_project empty_world)"
    using deploy_ok [OF typical_host_others_succeed, where config = blog_config and w = empty_world]
    by (auto simp: succeeded_def)
  moreover have "count_list
      (map fst (printed (world_of (deploy typical_host blog_config blog_project empty_world))))
      Warning = 1"
    by (simp only: typical_run_levels) (simp add: count_list_replicate_other)
  moreover have "count_list
      (map fst (printed (world_of (deploy no_sudo_host blog_config blog_project empty_world))))
      Warning = 2"
    by (simp only: no_sudo_run_levels) (simp add: count_list_replicate_other)
  ultimately show ?thesis
    using no_sudo_run_succeeds by blast
qed

text \<open>
  The \<open>start\<close> of the second listing has no \<open>try\<close> around the registration: there the
  same failure is the failure of \<open>start\<close>.
\<close>

lemma PM2_start_short_propagates:
  assumes "autoStart config"
    and "others_succeed h project"
    and "\<forall>w0. exec_error h w0 (''pm2'', [''startup''], None) = Some e"
  shows "\<exists>w'. PM2_start_short h config project w = Failed e w'"
  using assms
  by (simp add: PM2_start_short_def executeCommand_def execa_def others_succeedD)

lemmas short_run_defs =
  deploy_short_def setupPM2_short_def PM2_start_short_def checkPrerequisites_def buildProject_def
  generateEnvironment_def setupNginx_def createManagementScripts_def performFinalChecks_def
  checkClientPort_def checkServerPort_def printPostDeploymentInfo_def PM2_install_def
  PM2_generate_def Nginx_install_def Nginx_generate_def getConfigPath_def getOS_def
  executeCommand_def installPackage_def checkCommand_def execa_def writeFile_def
  isPortAvailable_def logger_defs emit_def

lemma short_run_world:
  "deploy_short no_sudo_host blog_config blog_project empty_world =
     Failed ''EACCES: permission denied''
       \<lparr>files =
          [''/app/.env'' \<mapsto> envContent blog_config,
           ''/app/ecosystem.config.js'' \<mapsto> generateEcosystemConfig blog_config blog_project],
        commands =
          [(''npm'', [''install''], Some ''/app''),
           (''npm'', [''run'', ''build''], Some ''/app''),
           (''pm2'', [''start'', ''ecosystem.config.js''], Some ''/app''),
           (''pm2'', [''save''], None),
           (''pm2'', [''startup''], None)],
        printed =
          [(Info, [CHR 0xF0, CHR 0x9F, CHR 0x9A, CHR 0x80] @ '' Starting deployment of blog''),
           (Step, ''Checking prerequisites...''),
           (Success, ''Prerequisites checked''),
           (Step, ''Building project...''),
           (Spinner, ''Installing dependencies...''),
           (Spinner, ''Building applications...''),
           (SpinnerSucceed, []),
           (Success, ''Project built successfully''),
           (Success, ''.env file created''),
           (Warning, ''Please update .env with your actual values''),
           (Step, ''Setting up PM2...''),
           (Success, ''PM2 already installed''),
           (Success, ''PM2 ecosystem.config.js generated''),
           (Step, ''Starting PM2 applications...''),
           (Error, ''Deployment failed: EACCES: permission denied'')]\<rparr>"
proof -
  have c: "autoStart blog_config" "nginxConfig blog_config" "projectName blog_config = ''blog''"
    by (simp_all add: blog_config_def)
  show ?thesis
    by (simp add: short_run_defs no_sudo_host_def typical_host_def blog_project_def empty_world_def c)
qed

text \<open>
  C6 does not hold of the code as the file has it. The claim is what the \<open>start\<close> of the
  first listing does; the \<open>start\<close> of the second listing (lines 231 to 242) awaits
  \<open>pm2 startup\<close> with no \<open>try\<close>. With that \<open>start\<close>, in the \<open>blog\<close> scenario
  (\<open>autoStart\<close> set) on the host on which only \<open>pm2 startup\<close> fails, \<open>start\<close> fails
  with the error of the registration, and so does \<open>deploy\<close>: the last line of its log is
  the error, no warning is logged for the registration, and the scripts step and the final
  checks are not reached.
\<close>

theorem autostart_failure_fails_the_second_listing:
  "autoStart blog_config \<and>
   exec_error no_sudo_host empty_world (''pm2'', [''startup''], None) =
     Some ''EACCES: permission denied'' \<and>
   PM2_start_short no_sudo_host blog_config blog_project empty_world =
     Failed ''EACCES: permission denied''
       \<lparr>files = Map.empty,
        commands =
          [(''pm2'', [''start'', ''ecosystem.config.js''], Some ''/app''),
           (''pm2'', [''save''], None),
           (''pm2'', [''startup''], None)],
        printed = [(Step, ''Starting PM2 applications...'')]\<rparr> \<and>
   \<not> succeeded (deploy_short no_sudo_host blog_config blog_project empty_world) \<and>
   last (printed (world_of (deploy_short no_sudo_host blog_config blog_project empty_world))) =
     (Error, ''Deployment failed: EACCES: permission denied'') \<and>
   (Warning, ''Could not configure PM2 auto-startup. You may need to run this manually with sudo.'')
     \<notin> set (printed (world_of (deploy_short no_sudo_host blog_config blog_project empty_world))) \<and>
   commands (world_of (deploy_short no_sudo_host blog_config blog_project empty_world)) =
     [(''npm'', [''install''], Some ''/app''),
      (''npm'', [''run'', ''build''], Some ''/app''),
      (''pm2'', [''start'', ''ecosystem.config.js''], Some ''/app''),
      (''pm2'', [''save''], None),
      (''pm2'', [''startup''], None)] \<and>
   files (world_of (deploy_short no_sudo_host blog_config blog_project empty_world))
     ''/app/status.sh'' = None"
proof -
  have "autoStart blog_config"
    by (simp add: blog_config_def)
  moreover have "exec_error no_sudo_host empty_world (''pm2'', [''startup''], None) =
      Some ''EACCES: permission denied''"
    by (simp add: no_sudo_host_def)
  moreover have "PM2_start_short no_sudo_host blog_config blog_project empty_world =
     Failed ''EACCES: permission denied''
       \<lparr>files = Map.empty,
        commands =
          [(''pm2'', [''start'', ''ecosystem.config.js''], Some ''/app''),
           (''pm2'', [''save''], None),
           (''pm2'', [''startup''], None)],
        printed = [(Step, ''Starting PM2 applications...'')]\<rparr>"
    by (simp add: PM2_start_short_def executeCommand_def execa_def logger_defs emit_def
          no_sudo_host_def typical_host_def blog_config_def blog_project_def empty_world_def)
  moreover have "\<not> succeeded (deploy_short no_sudo_host blog_config blog_project empty_world)"
    by (simp add: short_run_world succeeded_def)
  moreover have
    "last (printed (world_of (deploy_short no_sudo_host blog_config blog_project empty_world))) =
     (Error, ''Deployment failed: EACCES: permission denied'')"
    by (simp add: short_run_world)
  moreover have
    "(Warning, ''Could not configure PM2 auto-startup. You may need to run this manually with sudo.'')
     \<notin> set (printed (world_of (deploy_short no_sudo_host blog_config blog_project empty_world)))"
    by (simp add: short_run_world)
  moreover have "commands (world_of (deploy_short no_sudo_host blog_config blog_project empty_world)) =
     [(''npm'', [''install''], Some ''/app''),
      (''npm'', [''run'', ''build''], Some ''/app''),
      (''pm2'', [''start'', ''ecosystem.config.js''], Some ''/app''),
      (''pm2'', [''save''], None),
      (''pm2'', [''startup''], None)]"
    by (simp add: short_run_world)
  moreover have "files (world_of (deploy_short no_sudo_host blog_config blog_project empty_world))
     ''/app/status.sh'' = None"
    by (simp add: short_run_world)
  ultimately show ?thesis by blast
qed

section \<open>The port probe and the final checks\<close>

text \<open>
  C8. \<open>isPortAvailable\<close> answers that the port is free exactly when the probe returns the
  requested port; so it reports the port as taken when the probe returns another port and
  also when the probe fails, and no error of the probe reaches the caller.
  \<open>performFinalChecks\<close> always returns: it writes no file, runs no command, and prints
  only its step line, success lines and warnings.
\<close>

theorem port_probe_is_advisory:
  "isPortAvailable h w port = (detect_port h w port = Inr port) \<and>
   (\<not> isPortAvailable h w port) =
     ((\<exists>q. detect_port h w port = Inr q \<and> q \<noteq> port) \<or> (\<exists>e. detect_port h w port = Inl e)) \<and>
   (\<exists>w' new. performFinalChecks h config project w = Done w' \<and>
      files w' = files w \<and> commands w' = commands w \<and>
      printed w' = printed w @ new \<and>
      set (map fst new) \<subseteq> {Step, Success, Warning})"
proof (intro conjI)
  show "isPortAvailable h w port = (detect_port h w port = Inr port)"
    by (auto simp: isPortAvailable_def split: sum.splits)
  show "(\<not> isPortAvailable h w port) =
     ((\<exists>q. detect_port h w port = Inr q \<and> q \<noteq> port) \<or> (\<exists>e. detect_port h w port = Inl e))"
    by (cases "detect_port h w port") (auto simp: isPortAvailable_def)
  show "\<exists>w' new. performFinalChecks h config project w = Done w' \<and>
      files w' = files w \<and> commands w' = commands w \<and>
      printed w' = printed w @ new \<and>
      set (map fst new) \<subseteq> {Step, Success, Warning}"
    by (simp add: performFinalChecks_def checkClientPort_def checkServerPort_def logger_defs)
qed

text \<open>
  Port 3000 probed on three hosts: taken (the probe answers 3001), free, and with a probe
  that fails; and the final checks of the \<open>blog\<close> scenario with a failing probe.
\<close>

theorem port_probe_is_advisory_witness:
  "\<not> isPortAvailable typical_host empty_world 3000 \<and>
   isPortAvailable free_ports_host empty_world 3000 \<and>
   \<not> isPortAvailable broken_probe_host empty_world 3000 \<and>
   succeeded (performFinalChecks broken_probe_host blog_config blog_project empty_world)"
proof -
  note a = port_probe_is_advisory [of typical_host empty_world 3000, THEN conjunct1]
  note b = port_probe_is_advisory [of free_ports_host empty_world 3000, THEN conjunct1]
  note c = port_probe_is_advisory [of broken_probe_host empty_world 3000, THEN conjunct1]
  obtain w' where d: "performFinalChecks broken_probe_host blog_config blog_project empty_world = Done w'"
    using port_probe_is_advisory [of broken_probe_host empty_world 3000 blog_config blog_project]
    by blast
  have "\<not> isPortAvailable typical_host empty_world 3000"
    using a by (simp add: typical_host_def)
  moreover have "isPortAvailable free_ports_host empty_world 3000"
    using b by (simp add: free_ports_host_def typical_host_def)
  moreover have "\<not> isPortAvailable broken_probe_host empty_world 3000"
    using c by (simp add: broken_probe_host_def typical_host_def)
  moreover have "succeeded (performFinalChecks broken_probe_host blog_config blog_project empty_world)"
    by (simp add: d succeeded_def)
  ultimately show ?thesis by blast
qed

section \<open>The final report\<close>

lemma starts_with_rule: "starts_with (CHR '' '' # ps) (replicate n (CHR ''='')) = False"
  by (cases n) simp_all

lemma report_frontend:
  "filter (starts_with ''   Frontend:'') (postDeploymentInfo config project) =
     (if hasClient project then [''   Frontend: http://localhost:'' @ show_nat (clientPort config)]
      else [])"
  by (simp add: postDeploymentInfo_def starts_with_rule)

lemma report_backend:
  "filter (starts_with ''   Backend:'') (postDeploymentInfo config project) =
     (if hasServer project then [''   Backend:  http://localhost:'' @ show_nat (serverPort config)]
      else [])"
  by (simp add: postDeploymentInfo_def starts_with_rule)

lemma report_public:
  "filter (starts_with ''   Public:'') (postDeploymentInfo config project) =
     (if domain config \<noteq> ''localhost'' then [''   Public:   http://'' @ domain config] else [])"
  by (simp add: postDeploymentInfo_def starts_with_rule)

lemma report_is_printed_last:
  assumes "deploy h config project w = Done w'"
  shows "\<exists>before. printed w' = before @ map (Pair Console) (postDeploymentInfo config project)"
proof (cases "snd (runSteps h config project (stepList config) (started config w))")
  case (Failed e w1)
  with assms show ?thesis by (simp add: deploy_as_steps)
next
  case (Done w1)
  with assms have "w' = finished config project w1"
    by (simp add: deploy_as_steps)
  then show ?thesis
    by (simp add: finished_def printPostDeploymentInfo_def fold_console_log)
qed

text \<open>
  C9. The report has the line \<open>Frontend: http://localhost:<clientPort>\<close> exactly when the
  client is enabled, the line \<open>Backend:  http://localhost:<serverPort>\<close> exactly when the
  server is enabled, and a \<open>Public:\<close> line, with the domain, exactly when the domain is not
  \<open>localhost\<close>. When \<open>deploy\<close> returns, the report is the last thing it has printed.
\<close>

theorem report_lists_the_urls:
  "filter (starts_with ''   Frontend:'') (postDeploymentInfo config project) =
     (if hasClient project then [''   Frontend: http://localhost:'' @ show_nat (clientPort config)]
      else []) \<and>
   filter (starts_with ''   Backend:'') (postDeploymentInfo config project) =
     (if hasServer project then [''   Backend:  http://localhost:'' @ show_nat (serverPort config)]
      else []) \<and>
   filter (starts_with ''   Public:'') (postDeploymentInfo config project) =
     (if domain config \<noteq> ''localhost'' then [''   Public:   http://'' @ domain config] else []) \<and>
   (deploy h config project w = Done w' \<longrightarrow>
      (\<exists>before. printed w' = before @ map (Pair Console) (postDeploymentInfo config project)))"
  using report_frontend report_backend report_public report_is_printed_last by blast

text \<open>
  The scenario of the specification: both local URLs, no \<open>Public:\<close> line.
\<close>

theorem report_lists_the_urls_witness:
  "(\<exists>w'. deploy typical_host blog_config blog_project empty_world = Done w' \<and>
      (\<exists>before. printed w' = before @ map (Pair Console) (postDeploymentInfo blog_config blog_project))) \<and>
   filter (starts_with ''   Frontend:'') (postDeploymentInfo blog_config blog_project) =
     [''   Frontend: http://localhost:3000''] \<and>
   filter (starts_with ''   Backend:'') (postDeploymentInfo blog_config blog_project) =
     [''   Backend:  http://localhost:8000''] \<and>
   filter (starts_with ''   Public:'') (postDeploymentInfo blog_config blog_project) = []"
proof -
  obtain w' where d: "deploy typical_host blog_config blog_project empty_world = Done w'"
    using deploy_ok [OF typical_host_others_succeed] by blast
  note t = report_lists_the_urls [of blog_config blog_project typical_host empty_world w']
  have c: "hasClient blog_project" "hasServer blog_project" "domain blog_config = ''localhost''"
    by (simp_all add: blog_project_def blog_config_def)
  have p: "show_nat (clientPort blog_config) = ''3000''" "show_nat (serverPort blog_config) = ''8000''"
    by (simp_all add: blog_config_def show_nat.simps digit_char_def)
  from t d have "\<exists>before. printed w' = before @ map (Pair Console) (postDeploymentInfo blog_config blog_project)"
    by blast
  with d have "\<exists>w'. deploy typical_host blog_config blog_project empty_world = Done w' \<and>
      (\<exists>before. printed w' = before @ map (Pair Console) (postDeploymentInfo blog_config blog_project))"
    by blast
  moreover from t c p
  have "filter (starts_with ''   Frontend:'') (postDeploymentInfo blog_config blog_project) =
      [''   Frontend: http://localhost:3000'']"
    by simp
  moreover from t c p
  have "filter (starts_with ''   Backend:'') (postDeploymentInfo blog_config blog_project) =
      [''   Backend:  http://localhost:8000'']"
    by simp
  moreover from t c
  have "filter (starts_with ''   Public:'') (postDeploymentInfo blog_config blog_project) = []"
    by simp
  ultimately show ?thesis by blast
qed

section \<open>The management scripts\<close>

lemma script_paths_differ: "root @ ''/status.sh'' \<noteq> root @ ''/restart.sh''"
  by simp

lemma status_script_written:
  assumes "write_error h (logger_step ''Creating management scripts...'' w)
             (rootPath project @ ''/status.sh'') = None"
  shows "files (world_of (createManagementScripts h config project w))
           (rootPath project @ ''/status.sh'') = Some (statusScript config)"
  using assms
  by (simp add: createManagementScripts_def writeFile_def executeCommand_def execa_def logger_defs
        split: option.splits)

lemma scripts_written:
  assumes "createManagementScripts h config project w = Done w'"
  shows "files w' (rootPath project @ ''/status.sh'') = Some (statusScript config)"
    and "files w' (rootPath project @ ''/restart.sh'') = Some restartScript"
  using assms
  by (auto simp: createManagementScripts_def writeFile_def executeCommand_def execa_def logger_defs
        split: option.splits)

text \<open>
  C10. \<open>createManagementScripts\<close> starts with the write of \<open>status.sh\<close>: when the host
  lets that write through, the file holds the generated script afterwards, whatever it held
  before and whatever happens later in the step; and when the step returns, both
  \<open>status.sh\<close> and \<open>restart.sh\<close> hold the generated scripts. The step asks no
  \<open>checkCommand\<close>: its result does not depend on what \<open>which\<close> answers.
\<close>

theorem management_scripts_are_always_rewritten:
  "(write_error h (logger_step ''Creating management scripts...'' w)
      (rootPath project @ ''/status.sh'') = None \<longrightarrow>
    files (world_of (createManagementScripts h config project w))
      (rootPath project @ ''/status.sh'') = Some (statusScript config)) \<and>
   (createManagementScripts h config project w = Done w' \<longrightarrow>
      files w' (rootPath project @ ''/status.sh'') = Some (statusScript config) \<and>
      files w' (rootPath project @ ''/restart.sh'') = Some restartScript) \<and>
   createManagementScripts (h\<lparr>which_ok := q\<rparr>) config project w =
     createManagementScripts h config project w"
proof (intro conjI impI)
  show "createManagementScripts (h\<lparr>which_ok := q\<rparr>) config project w =
      createManagementScripts h config project w"
    by (simp add: createManagementScripts_def writeFile_def executeCommand_def execa_def)
qed (simp_all add: status_script_written scripts_written)

text \<open>Scripts left by an earlier run are replaced.\<close>

theorem management_scripts_are_always_rewritten_witness:
  "files old_scripts_world ''/app/status.sh'' = Some ''old status'' \<and>
   files old_scripts_world ''/app/restart.sh'' = Some ''old restart'' \<and>
   write_error typical_host (logger_step ''Creating management scripts...'' old_scripts_world)
     (rootPath blog_project @ ''/status.sh'') = None \<and>
   (\<exists>w'. createManagementScripts typical_host blog_config blog_project old_scripts_world = Done w' \<and>
      files w' ''/app/status.sh'' = Some (statusScript blog_config) \<and>
      files w' ''/app/restart.sh'' = Some restartScript)"
proof -
  have r: "rootPath blog_project = ''/app''"
    by (simp add: blog_project_def)
  obtain w' where d: "createManagementScripts typical_host blog_config blog_project old_scripts_world = Done w'"
    using createManagementScripts_ok [OF typical_host_others_succeed] by blast
  have o: "files old_scripts_world ''/app/status.sh'' = Some ''old status''"
    "files old_scripts_world ''/app/restart.sh'' = Some ''old restart''"
    by (simp_all add: old_scripts_world_def)
  have e: "write_error typical_host (logger_step ''Creating management scripts...'' old_scripts_world)
     (rootPath blog_project @ ''/status.sh'') = None"
    by (simp add: typical_host_def)
  from management_scripts_are_always_rewritten
         [of typical_host old_scripts_world blog_project blog_config w'] d r
  have "files w' ''/app/status.sh'' = Some (statusScript blog_config) \<and>
      files w' ''/app/restart.sh'' = Some restartScript"
    by simp
  with d o e show ?thesis by blast
qed

end
